theory Spec2Isabelle
  imports Complex_Main
begin

section \<open>Conventions of the embedding\<close>

text \<open>
  The TypeScript sources compute with the single numeric type \<open>number\<close>. Two embeddings
  of it are used. The bet classification and the prediction engine are embedded over
  \<^typ>\<open>real\<close>: arithmetic is exact, and the special values NaN and the infinities, as
  well as the rounding of IEEE-754 doubles, are outside that part of the model. The odds
  conversion, where a quotient can round to \<open>1\<close>, and the injury impact computation,
  whose clamps meet NaN, are embedded over the binary64 values of the next section.
  Lengths of arrays are \<^typ>\<open>nat\<close> and are converted where the source mixes them with
  other numbers. An optional numeric field of an untyped JSON object is a number whose
  absence is the value \<open>0\<close>: every read of such a field in the sources goes through
  \<open>x || d\<close> or a truthiness test, which treat \<open>undefined\<close> and \<open>0\<close> alike.
  Texts that are only displayed (\<open>reasons\<close>, \<open>reasoning\<close>, \<open>summary\<close>,
  \<open>description\<close>, formatted percentages) are either left out or kept as tags.
\<close>

definition js_or :: "real \<Rightarrow> real \<Rightarrow> real" where
  \<comment> \<open>\<open>x || d\<close> on exact numbers\<close>
  "js_or x d = (if x = 0 then d else x)"

definition Math_round :: "real \<Rightarrow> real" where
  \<comment> \<open>\<open>Math.round\<close>: the nearest integer, ties towards plus infinity\<close>
  "Math_round x = of_int \<lfloor>x + 1 / 2\<rfloor>"

section \<open>Binary64 numbers\<close>

text \<open>
  Where a result depends on the rounding of a quotient or on the special values, \<open>number\<close>
  is the type \<open>double\<close> of IEEE-754 binary64 values: a finite value, the two infinities and
  NaN. A finite value is carried as the real number it denotes; every operation rounds its
  exact result to the nearest binary64 value, ties to the even significand, and results
  beyond \<open>Number.MAX_VALUE\<close> become an infinity. The sign of zero is not represented:
  only a division by zero observes it, a zero divisor is taken as \<open>+0\<close>, and every
  divisor in the functions embedded over this type is a sum with \<open>100\<close> or has passed
  \<open>x || 1\<close>, which excludes zero.
\<close>

datatype double = Finite real | PosInf | NegInf | NaN

definition roundHalfEven :: "real \<Rightarrow> int" where
  \<comment> \<open>the nearest integer, ties to the even one\<close>
  "roundHalfEven y =
    (let f = \<lfloor>y\<rfloor>; r = y - of_int f
     in if r < 1 / 2 then f else if 1 / 2 < r then f + 1
        else if even f then f else f + 1)"

definition binade :: "real \<Rightarrow> int" where
  \<comment> \<open>the exponent \<open>e\<close> with \<open>2 ^ e \<le> |x| < 2 ^ (e + 1)\<close>, not below that of the subnormal numbers\<close>
  "binade x = max \<lfloor>log 2 \<bar>x\<bar>\<rfloor> (- 1022)"

definition ulp :: "real \<Rightarrow> real" where
  \<comment> \<open>the spacing of the binary64 values around \<open>x\<close>: 52 fraction bits\<close>
  "ulp x = 2 powr (of_int (binade x) - 52)"

definition rnd :: "real \<Rightarrow> real" where
  \<comment> \<open>round to nearest, with unbounded exponent\<close>
  "rnd x = (if x = 0 then 0 else ulp x * of_int (roundHalfEven (x / ulp x)))"

definition MAX_VALUE :: real where
  \<comment> \<open>\<open>Number.MAX_VALUE\<close>\<close>
  "MAX_VALUE = (2 ^ 53 - 1) * 2 ^ 971"

definition fl :: "real \<Rightarrow> double" where
  \<comment> \<open>the binary64 value of an exact result\<close>
  "fl x =
    (let y = rnd x
     in if MAX_VALUE < y then PosInf else if y < - MAX_VALUE then NegInf else Finite y)"

definition lit :: "real \<Rightarrow> double" where
  \<comment> \<open>a numeric literal of the source\<close>
  "lit x = fl x"

text \<open>The arithmetic operators and the comparisons \<open><\<close> and \<open><=\<close> of the language
  (\<open>a > b\<close> is \<open>b < a\<close>). A comparison with NaN is false.\<close>

instantiation double :: "{plus, minus, uminus, times, inverse, abs, ord}"
begin

fun plus_double :: "double \<Rightarrow> double \<Rightarrow> double" where
  "plus_double (Finite a) (Finite b) = fl (a + b)"
| "plus_double NaN y = NaN"
| "plus_double x NaN = NaN"
| "plus_double PosInf NegInf = NaN"
| "plus_double NegInf PosInf = NaN"
| "plus_double PosInf y = PosInf"
| "plus_double NegInf y = NegInf"
| "plus_double x PosInf = PosInf"
| "plus_double x NegInf = NegInf"

fun uminus_double :: "double \<Rightarrow> double" where
  "uminus_double (Finite a) = Finite (- a)"
| "uminus_double PosInf = NegInf"
| "uminus_double NegInf = PosInf"
| "uminus_double NaN = NaN"

definition minus_double :: "double \<Rightarrow> double \<Rightarrow> double" where
  "minus_double x y = x + (- y)"

fun abs_double :: "double \<Rightarrow> double" where
  "abs_double (Finite a) = Finite \<bar>a\<bar>"
| "abs_double PosInf = PosInf"
| "abs_double NegInf = PosInf"
| "abs_double NaN = NaN"

fun times_double :: "double \<Rightarrow> double \<Rightarrow> double" where
  "times_double (Finite a) (Finite b) = fl (a * b)"
| "times_double NaN y = NaN"
| "times_double x NaN = NaN"
| "times_double PosInf PosInf = PosInf"
| "times_double PosInf NegInf = NegInf"
| "times_double NegInf PosInf = NegInf"
| "times_double NegInf NegInf = PosInf"
| "times_double PosInf (Finite b) = (if b = 0 then NaN else if 0 < b then PosInf else NegInf)"
| "times_double NegInf (Finite b) = (if b = 0 then NaN else if 0 < b then NegInf else PosInf)"
| "times_double (Finite a) PosInf = (if a = 0 then NaN else if 0 < a then PosInf else NegInf)"
| "times_double (Finite a) NegInf = (if a = 0 then NaN else if 0 < a then NegInf else PosInf)"

fun divide_double :: "double \<Rightarrow> double \<Rightarrow> double" where
  "divide_double (Finite a) (Finite b) =
     (if b = 0 then (if a = 0 then NaN else if 0 < a then PosInf else NegInf)
      else fl (a / b))"
| "divide_double NaN y = NaN"
| "divide_double x NaN = NaN"
| "divide_double (Finite a) PosInf = Finite 0"
| "divide_double (Finite a) NegInf = Finite 0"
| "divide_double PosInf (Finite b) = (if 0 \<le> b then PosInf else NegInf)"
| "divide_double NegInf (Finite b) = (if 0 \<le> b then NegInf else PosInf)"
| "divide_double x y = NaN"

definition inverse_double :: "double \<Rightarrow> double" where
  "inverse_double x = divide (Finite 1) x"

fun less_double :: "double \<Rightarrow> double \<Rightarrow> bool" where
  "less_double (Finite a) (Finite b) = (a < b)"
| "less_double NaN y = False"
| "less_double x NaN = False"
| "less_double x PosInf = (x \<noteq> PosInf)"
| "less_double NegInf y = (y \<noteq> NegInf)"
| "less_double x y = False"

fun less_eq_double :: "double \<Rightarrow> double \<Rightarrow> bool" where
  "less_eq_double (Finite a) (Finite b) = (a \<le> b)"
| "less_eq_double NaN y = False"
| "less_eq_double x NaN = False"
| "less_eq_double x PosInf = True"
| "less_eq_double NegInf y = True"
| "less_eq_double x y = False"

instance ..

end

text \<open>Truthiness of a number and \<open>x || d\<close>: \<open>0\<close> and NaN are falsy.\<close>

definition truthy :: "double \<Rightarrow> bool" where
  "truthy x = (x \<noteq> Finite 0 \<and> x \<noteq> NaN)"

definition js_or_else :: "double \<Rightarrow> double \<Rightarrow> double" where
  "js_or_else x d = (if truthy x then x else d)"

text \<open>\<open>Math.min\<close> and \<open>Math.max\<close> return NaN when an argument is NaN.\<close>

definition Math_min :: "double \<Rightarrow> double \<Rightarrow> double" where
  "Math_min a b = (if a = NaN \<or> b = NaN then NaN else if b < a then b else a)"

definition Math_max :: "double \<Rightarrow> double \<Rightarrow> double" where
  "Math_max a b = (if a = NaN \<or> b = NaN then NaN else if a < b then b else a)"

text \<open>A counter or an array length used as a number.\<close>

definition ofNat :: "nat \<Rightarrow> double" where
  "ofNat n = fl (real n)"

text \<open>\<open>Array.prototype.sort\<close> with a comparator function: a stable sort, in which an
  element moves behind another one only when the comparator gives a positive number (NaN
  counts as \<open>0\<close>). For a comparator that is not a consistent ordering the language leaves
  the order to the implementation; the insertion sort is one such order.\<close>

fun insertBy :: "('a \<Rightarrow> 'a \<Rightarrow> double) \<Rightarrow> 'a \<Rightarrow> 'a list \<Rightarrow> 'a list" where
  "insertBy cmp x [] = [x]"
| "insertBy cmp x (y # ys) =
     (if lit 0 < cmp x y then y # insertBy cmp x ys else x # y # ys)"

definition Array_sort :: "('a \<Rightarrow> 'a \<Rightarrow> double) \<Rightarrow> 'a list \<Rightarrow> 'a list" where
  "Array_sort cmp xs = foldr (insertBy cmp) xs []"

section \<open>Injury service: compounding\<close>

text \<open>\<open>src/lib/injury-service.ts\<close>, \<open>calculateCompoundingMultiplier\<close>: four successive
  overwriting assignments, a scale-up, and a cap.\<close>

definition calculateCompoundingMultiplier :: "real \<Rightarrow> real \<Rightarrow> real" where
  "calculateCompoundingMultiplier injuryCount manGamesLost =
    (let multiplier = 1.0;
         multiplier = (if injuryCount \<ge> 2 then 0.15 else multiplier);
         multiplier = (if injuryCount \<ge> 3 then 0.3 else multiplier);
         multiplier = (if injuryCount \<ge> 4 then 0.5 else multiplier);
         multiplier = (if injuryCount \<ge> 5 then 0.75 else multiplier);
         multiplier = (if manGamesLost > 30 then multiplier * 1.1 else multiplier)
     in min multiplier 2.0)"

section \<open>Bet classification\<close>

datatype BetClassification = best_bet | strong_value | value_bet | lean | none

datatype BetPropType = bet_goalscorer | bet_shots | bet_assists | bet_points | bet_saves

datatype VarianceLevel = low | medium | high

record PropThreshold =
  minEdgeValue :: real
  minEdgeStrong :: real
  minEdgeBest :: real
  minGamesPlayed :: real
  varianceLevel :: VarianceLevel

fun PROP_THRESHOLDS :: "BetPropType \<Rightarrow> PropThreshold" where
  "PROP_THRESHOLDS bet_shots =
     \<lparr>minEdgeValue = 0.03, minEdgeStrong = 0.05, minEdgeBest = 0.07,
      minGamesPlayed = 15, varianceLevel = low\<rparr>"
| "PROP_THRESHOLDS bet_saves =
     \<lparr>minEdgeValue = 0.03, minEdgeStrong = 0.05, minEdgeBest = 0.07,
      minGamesPlayed = 20, varianceLevel = low\<rparr>"
| "PROP_THRESHOLDS bet_points =
     \<lparr>minEdgeValue = 0.03, minEdgeStrong = 0.05, minEdgeBest = 0.08,
      minGamesPlayed = 20, varianceLevel = medium\<rparr>"
| "PROP_THRESHOLDS bet_goalscorer =
     \<lparr>minEdgeValue = 0.05, minEdgeStrong = 0.07, minEdgeBest = 0.10,
      minGamesPlayed = 30, varianceLevel = high\<rparr>"
| "PROP_THRESHOLDS bet_assists =
     \<lparr>minEdgeValue = 0.04, minEdgeStrong = 0.06, minEdgeBest = 0.08,
      minGamesPlayed = 20, varianceLevel = high\<rparr>"

definition MIN_PROB_FOR_LEAN :: real where "MIN_PROB_FOR_LEAN = 0.50"
definition MIN_PROB_FOR_BEST :: real where "MIN_PROB_FOR_BEST = 0.55"
definition MIN_CONFIDENCE_VALUE :: real where "MIN_CONFIDENCE_VALUE = 0.50"
definition MIN_CONFIDENCE_STRONG :: real where "MIN_CONFIDENCE_STRONG = 0.65"
definition MIN_CONFIDENCE_BEST :: real where "MIN_CONFIDENCE_BEST = 0.75"
definition MAX_EDGE_SUSPICIOUS :: real where "MAX_EDGE_SUSPICIOUS = 0.25"

fun KELLY_FRACTIONS :: "BetClassification \<Rightarrow> real" where
  "KELLY_FRACTIONS best_bet = 0.50"
| "KELLY_FRACTIONS strong_value = 0.25"
| "KELLY_FRACTIONS value_bet = 0.15"
| "KELLY_FRACTIONS lean = 0.10"
| "KELLY_FRACTIONS none = 0"

definition americanToImpliedProb :: "real \<Rightarrow> real" where
  "americanToImpliedProb odds =
    (if odds = 0 then 0
     else if odds > 0 then 100 / (odds + 100)
     else \<bar>odds\<bar> / (\<bar>odds\<bar> + 100))"

text \<open>\<open>americanToImpliedProb\<close> as it computes on binary64 numbers: the same three branches,
  with each sum and quotient rounded. \<open>classifyBet\<close> below uses the exact version.\<close>

definition americanToImpliedProb_binary64 :: "double \<Rightarrow> double" where
  "americanToImpliedProb_binary64 odds =
    (if odds = lit 0 then lit 0
     else if odds > lit 0 then lit 100 / (odds + lit 100)
     else \<bar>odds\<bar> / (\<bar>odds\<bar> + lit 100))"

definition probToAmericanOdds :: "real \<Rightarrow> real" where
  "probToAmericanOdds prob =
    (if prob \<le> 0 \<or> prob \<ge> 1 then 0
     else if prob \<ge> 0.5 then Math_round ((- 100 * prob) / (1 - prob))
     else Math_round ((100 * (1 - prob)) / prob))"

definition calculateExpectedValue :: "real \<Rightarrow> real \<Rightarrow> real" where
  "calculateExpectedValue modelProbability bookOdds =
    (if bookOdds = 0 then 0
     else
       let stake = 100;
           payout = (if bookOdds > 0 then bookOdds else (100 / \<bar>bookOdds\<bar>) * 100);
           winProb = modelProbability;
           loseProb = 1 - modelProbability;
           ev = (winProb * payout) - (loseProb * stake)
       in Math_round (ev * 100) / 100)"

text \<open>The entries of \<open>reasons\<close>, without their formatted numbers.\<close>

datatype Reason =
    LowSample | HighProbability | NoBookOdds | EdgeUnusuallyHigh
  | BestBetEdge | HighConfidence | EVReason | StrongProbability
  | StrongValueEdge | ConfidenceReason | ValueEdge
  | LeanProbability | SmallEdge | HighVarianceProp

record BetAnalysis =
  classification :: BetClassification
  edge :: real
  modelProbability :: real
  bookProbability :: real
  bookOdds :: real
  fairOdds :: real
  expectedValue :: real
  confidence :: real
  gamesPlayed :: real
  reasons :: "Reason list"
  kellyFraction :: real

text \<open>\<open>classifyBet\<close>. The parameter \<open>bookOdds\<close> has type \<open>number | null\<close>; the test
  \<open>!bookOdds\<close> holds for \<open>null\<close> and for \<open>0\<close>. The parameter \<open>propLine\<close> only feeds the
  displayed \<open>bookLine\<close>.\<close>

definition classifyBet ::
  "real \<Rightarrow> real option \<Rightarrow> real \<Rightarrow> BetPropType \<Rightarrow> real \<Rightarrow> real \<Rightarrow> BetAnalysis" where
  "classifyBet modelProbability' bookOdds' propLine propType confidence' gamesPlayed' =
    (let propThresholds = PROP_THRESHOLDS propType;
         result = \<lparr>classification = none, edge = 0, modelProbability = modelProbability',
                   bookProbability = 0,
                   bookOdds = (case bookOdds' of None \<Rightarrow> 0 | Some b \<Rightarrow> b),
                   fairOdds = probToAmericanOdds modelProbability',
                   expectedValue = 0, confidence = confidence', gamesPlayed = gamesPlayed',
                   reasons = [], kellyFraction = 0\<rparr>;
         hasSufficientSample = (gamesPlayed' \<ge> minGamesPlayed propThresholds);
         result = (if hasSufficientSample then result
                   else result\<lparr>reasons := reasons result @ [LowSample]\<rparr>)
     in
     if bookOdds' = None \<or> bookOdds' = Some 0 then
       (if modelProbability' \<ge> MIN_PROB_FOR_LEAN \<and> confidence' \<ge> MIN_CONFIDENCE_VALUE
           \<and> hasSufficientSample
        then result\<lparr>classification := lean, kellyFraction := KELLY_FRACTIONS lean,
                    reasons := reasons result @ [HighProbability, NoBookOdds]\<rparr>
        else result)
     else
       let odds = the bookOdds';
           result = result\<lparr>bookProbability := americanToImpliedProb odds\<rparr>;
           result = result\<lparr>edge := modelProbability' - bookProbability result\<rparr>;
           result = result\<lparr>expectedValue := calculateExpectedValue modelProbability' odds\<rparr>;
           result = (if edge result > MAX_EDGE_SUSPICIOUS
                     then result\<lparr>reasons := reasons result @ [EdgeUnusuallyHigh]\<rparr>
                     else result);
           edge' = edge result;
           hasMinEdgeBest = (edge' \<ge> minEdgeBest propThresholds);
           hasMinEdgeStrong = (edge' \<ge> minEdgeStrong propThresholds);
           hasMinEdgeValue = (edge' \<ge> minEdgeValue propThresholds);
           hasHighConfidence = (confidence' \<ge> MIN_CONFIDENCE_BEST);
           hasMedConfidence = (confidence' \<ge> MIN_CONFIDENCE_STRONG);
           hasMinConfidence = (confidence' \<ge> MIN_CONFIDENCE_VALUE);
           isHighProb = (modelProbability' \<ge> MIN_PROB_FOR_BEST);
           result =
             (if hasMinEdgeBest \<and> hasHighConfidence \<and> hasSufficientSample then
                result\<lparr>classification := best_bet, kellyFraction := KELLY_FRACTIONS best_bet,
                       reasons := reasons result @ [BestBetEdge, HighConfidence, EVReason]
                         @ (if isHighProb then [StrongProbability] else [])\<rparr>
              else if hasMinEdgeStrong \<and> hasMedConfidence \<and> hasSufficientSample then
                result\<lparr>classification := strong_value,
                       kellyFraction := KELLY_FRACTIONS strong_value,
                       reasons := reasons result @ [StrongValueEdge, ConfidenceReason, EVReason]\<rparr>
              else if hasMinEdgeValue \<and> hasMinConfidence \<and> hasSufficientSample then
                result\<lparr>classification := value_bet, kellyFraction := KELLY_FRACTIONS value_bet,
                       reasons := reasons result @ [ValueEdge, EVReason]\<rparr>
              else if isHighProb \<and> hasMinConfidence \<and> edge' > 0 then
                result\<lparr>classification := lean, kellyFraction := KELLY_FRACTIONS lean,
                       reasons := reasons result @ [LeanProbability, SmallEdge]\<rparr>
              else result)
       in
       if varianceLevel propThresholds = high \<and> classification result \<noteq> none
       then result\<lparr>reasons := reasons result @ [HighVarianceProp]\<rparr>
       else result)"

text \<open>The numeric priorities of \<open>sortBetsByQuality\<close>: a smaller number is a better tier
  (\<open>best_bet > strong_value > value > lean > none\<close>).\<close>

fun priority :: "BetClassification \<Rightarrow> nat" where
  "priority best_bet = 0"
| "priority strong_value = 1"
| "priority value_bet = 2"
| "priority lean = 3"
| "priority none = 4"

section \<open>Prediction engine\<close>

text \<open>\<open>src/lib/prediction-engine.ts\<close>. Its \<open>PropType\<close> has four values (the bet
  classification has a fifth, \<open>saves\<close>). Fields whose names occur in several interfaces
  carry a prefix here (\<open>ps_\<close> for \<open>PlayerStats\<close>, \<open>pr_\<close> for \<open>PredictionResult\<close>).\<close>

datatype PropType = Goalscorer | Shots | Assists | Points

record PlayerGameLog =
  gameId :: real
  gameDate :: string
  goals :: real
  assists :: real
  points :: real
  shots :: real
  toi :: real
  ppToi :: real
  plusMinus :: real
  opponentAbbrev :: string
  gl_isHome :: bool

record PlayerStats =
  ps_playerId :: real
  ps_playerName :: string
  ps_teamAbbrev :: string
  ps_position :: string
  ps_gamesPlayed :: real
  seasonGoals :: real
  seasonAssists :: real
  seasonPoints :: real
  seasonShots :: real
  seasonGoalsPerGame :: real
  seasonAssistsPerGame :: real
  seasonPointsPerGame :: real
  seasonShotsPerGame :: real
  seasonPPTimePerGame :: real
  recentGoalsPerGame :: real
  recentAssistsPerGame :: real
  recentPointsPerGame :: real
  recentShotsPerGame :: real
  recentPPTimePerGame :: real
  recentGames :: real
  shootingPct :: real

record TeamDefense =
  td_teamAbbrev :: string
  goalsAgainstPerGame :: real
  shotsAgainstPerGame :: real
  savePct :: real

record MatchupData =
  oppTeamAbbrev :: string
  oppGoalsAgainstPerGame :: real
  oppGoalieSavePct :: real
  isHome :: bool

record Factors =
  baseGoalsPerGame :: real
  recentFormMultiplier :: real
  ppBoost :: real
  goalieAdjustment :: real
  homeAwayAdjustment :: real
  defenseAdjustment :: real

text \<open>The result of the four \<open>calculateExpected...\<close> functions; the field \<open>expected\<close> is
  called \<open>lambda\<close> in \<open>calculateExpectedGoals\<close>.\<close>

record ExpectedResult =
  expected :: real
  factors :: Factors

record PredictionResult =
  pr_playerId :: real
  pr_playerName :: string
  pr_teamAbbrev :: string
  opponent :: string
  pr_propType :: PropType
  expectedGoals :: real
  expectedShots :: real
  expectedAssists :: real
  expectedPoints :: real
  pr_expectedValue :: real
  probability :: real
  pr_confidence :: real
  pr_gamesPlayed :: real
  pr_factors :: Factors

definition LEAGUE_AVG_SAVE_PCT :: real where "LEAGUE_AVG_SAVE_PCT = 0.905"
definition LEAGUE_AVG_GOALS_AGAINST :: real where "LEAGUE_AVG_GOALS_AGAINST = 3.0"
definition MIN_GAMES_FOR_PREDICTION :: nat where "MIN_GAMES_FOR_PREDICTION = 15"
definition RECENT_GAMES_WINDOW :: nat where "RECENT_GAMES_WINDOW = 5"

fun QUALITY_THRESHOLDS :: "PropType \<Rightarrow> real" where
  "QUALITY_THRESHOLDS Goalscorer = 0.15"
| "QUALITY_THRESHOLDS Shots = 1.5"
| "QUALITY_THRESHOLDS Assists = 0.15"
| "QUALITY_THRESHOLDS Points = 0.25"

fun DEFAULT_LINES :: "PropType \<Rightarrow> real" where
  "DEFAULT_LINES Goalscorer = 0.5"
| "DEFAULT_LINES Shots = 2.5"
| "DEFAULT_LINES Assists = 0.5"
| "DEFAULT_LINES Points = 0.5"

definition RECENT_WEIGHT :: real where "RECENT_WEIGHT = 0.60"
definition SEASON_WEIGHT :: real where "SEASON_WEIGHT = 0.40"

definition calculatePlayerStats ::
  "real \<Rightarrow> string \<Rightarrow> string \<Rightarrow> string \<Rightarrow> PlayerGameLog list \<Rightarrow> PlayerStats option" where
  "calculatePlayerStats playerId' playerName' teamAbbrev' position' gameLogs =
    (if length gameLogs < MIN_GAMES_FOR_PREDICTION then None
     else
       let gamesPlayed' = real (length gameLogs);
           seasonGoals' = foldl (\<lambda>sum g. sum + goals g) 0 gameLogs;
           seasonAssists' = foldl (\<lambda>sum g. sum + assists g) 0 gameLogs;
           seasonPoints' = foldl (\<lambda>sum g. sum + points g) 0 gameLogs;
           seasonShots' = foldl (\<lambda>sum g. sum + shots g) 0 gameLogs;
           seasonPPTime = foldl (\<lambda>sum g. sum + ppToi g) 0 gameLogs;
           recentGames' = take RECENT_GAMES_WINDOW gameLogs;
           recentGoals = foldl (\<lambda>sum g. sum + goals g) 0 recentGames';
           recentAssists = foldl (\<lambda>sum g. sum + assists g) 0 recentGames';
           recentPoints = foldl (\<lambda>sum g. sum + points g) 0 recentGames';
           recentShots = foldl (\<lambda>sum g. sum + shots g) 0 recentGames';
           recentPPTime = foldl (\<lambda>sum g. sum + ppToi g) 0 recentGames';
           n = real (length recentGames')
       in Some
         \<lparr>ps_playerId = playerId', ps_playerName = playerName', ps_teamAbbrev = teamAbbrev',
          ps_position = position', ps_gamesPlayed = gamesPlayed',
          seasonGoals = seasonGoals', seasonAssists = seasonAssists',
          seasonPoints = seasonPoints', seasonShots = seasonShots',
          seasonGoalsPerGame = seasonGoals' / gamesPlayed',
          seasonAssistsPerGame = seasonAssists' / gamesPlayed',
          seasonPointsPerGame = seasonPoints' / gamesPlayed',
          seasonShotsPerGame = seasonShots' / gamesPlayed',
          seasonPPTimePerGame = (seasonPPTime / gamesPlayed') / 60,
          recentGoalsPerGame = (if n > 0 then recentGoals / n else 0),
          recentAssistsPerGame = (if n > 0 then recentAssists / n else 0),
          recentPointsPerGame = (if n > 0 then recentPoints / n else 0),
          recentShotsPerGame = (if n > 0 then recentShots / n else 0),
          recentPPTimePerGame = (if n > 0 then (recentPPTime / n) / 60 else 0),
          recentGames = n,
          shootingPct = (if seasonShots' > 0 then seasonGoals' / seasonShots' else 0)\<rparr>)"

definition calculateExpectedGoals :: "PlayerStats \<Rightarrow> MatchupData \<Rightarrow> ExpectedResult" where
  "calculateExpectedGoals player matchup =
    (let baseGoalsPerGame' =
           (RECENT_WEIGHT * recentGoalsPerGame player) + (SEASON_WEIGHT * seasonGoalsPerGame player);
         lambda = baseGoalsPerGame';
         recentFormMultiplier' =
           (if seasonShotsPerGame player > 0 \<and> recentShotsPerGame player > 0 then
              let shotRatio = recentShotsPerGame player / seasonShotsPerGame player
              in 0.7 + (0.3 * min 1.3 (max 0.7 shotRatio))
            else 1.0);
         lambda = lambda * recentFormMultiplier';
         avgPPTime = (recentPPTimePerGame player + seasonPPTimePerGame player) / 2;
         ppBoost' = (if avgPPTime \<ge> 4.0 then 1.20 else if avgPPTime \<ge> 2.5 then 1.10 else 1.0);
         lambda = lambda * ppBoost';
         goalieDiff = LEAGUE_AVG_SAVE_PCT - oppGoalieSavePct matchup;
         goalieAdjustment' = 1 + (goalieDiff * 3);
         goalieAdjustment' = max 0.80 (min 1.25 goalieAdjustment');
         lambda = lambda * goalieAdjustment';
         homeAwayAdjustment' = (if isHome matchup then 1.05 else 0.95);
         lambda = lambda * homeAwayAdjustment';
         defenseAdjustment' =
           (if oppGoalsAgainstPerGame matchup > 0 then
              max 0.85 (min 1.20 (oppGoalsAgainstPerGame matchup / LEAGUE_AVG_GOALS_AGAINST))
            else 1.0);
         lambda = lambda * defenseAdjustment'
     in \<lparr>expected = max 0 lambda,
         factors = \<lparr>baseGoalsPerGame = baseGoalsPerGame',
                     recentFormMultiplier = recentFormMultiplier', ppBoost = ppBoost',
                     goalieAdjustment = goalieAdjustment',
                     homeAwayAdjustment = homeAwayAdjustment',
                     defenseAdjustment = defenseAdjustment'\<rparr>\<rparr>)"

definition calculateExpectedShots :: "PlayerStats \<Rightarrow> MatchupData \<Rightarrow> ExpectedResult" where
  "calculateExpectedShots player matchup =
    (let baseShotsPerGame =
           (RECENT_WEIGHT * recentShotsPerGame player) + (SEASON_WEIGHT * seasonShotsPerGame player);
         expected' = baseShotsPerGame;
         recentFormMultiplier' =
           (if seasonShotsPerGame player > 0 \<and> recentShotsPerGame player > 0 then
              let shotTrend = recentShotsPerGame player / seasonShotsPerGame player
              in 0.8 + (0.2 * min 1.2 (max 0.8 shotTrend))
            else 1.0);
         expected' = expected' * recentFormMultiplier';
         avgPPTime = (recentPPTimePerGame player + seasonPPTimePerGame player) / 2;
         ppBoost' = (if avgPPTime \<ge> 4.0 then 1.15 else if avgPPTime \<ge> 2.5 then 1.08 else 1.0);
         expected' = expected' * ppBoost';
         goalieAdjustment' = 1.0;
         homeAwayAdjustment' = (if isHome matchup then 1.03 else 0.97);
         expected' = expected' * homeAwayAdjustment';
         defenseAdjustment' =
           (if oppGoalsAgainstPerGame matchup > 3.3 then 1.05
            else if oppGoalsAgainstPerGame matchup < 2.7 then 0.95 else 1.0);
         expected' = expected' * defenseAdjustment'
     in \<lparr>expected = max 0 expected',
         factors = \<lparr>baseGoalsPerGame = baseShotsPerGame,
                     recentFormMultiplier = recentFormMultiplier', ppBoost = ppBoost',
                     goalieAdjustment = goalieAdjustment',
                     homeAwayAdjustment = homeAwayAdjustment',
                     defenseAdjustment = defenseAdjustment'\<rparr>\<rparr>)"

definition calculateExpectedAssists :: "PlayerStats \<Rightarrow> MatchupData \<Rightarrow> ExpectedResult" where
  "calculateExpectedAssists player matchup =
    (let baseAssistsPerGame =
           (RECENT_WEIGHT * recentAssistsPerGame player)
           + (SEASON_WEIGHT * seasonAssistsPerGame player);
         expected' = baseAssistsPerGame;
         recentFormMultiplier' =
           (if seasonPointsPerGame player > 0 \<and> recentPointsPerGame player > 0 then
              let pointsTrend = recentPointsPerGame player / seasonPointsPerGame player
              in 0.75 + (0.25 * min 1.25 (max 0.75 pointsTrend))
            else 1.0);
         expected' = expected' * recentFormMultiplier';
         avgPPTime = (recentPPTimePerGame player + seasonPPTimePerGame player) / 2;
         ppBoost' = (if avgPPTime \<ge> 4.0 then 1.25 else if avgPPTime \<ge> 2.5 then 1.12 else 1.0);
         expected' = expected' * ppBoost';
         goalieDiff = LEAGUE_AVG_SAVE_PCT - oppGoalieSavePct matchup;
         goalieAdjustment' = max 0.85 (min 1.20 (1 + (goalieDiff * 2)));
         expected' = expected' * goalieAdjustment';
         homeAwayAdjustment' = (if isHome matchup then 1.04 else 0.96);
         expected' = expected' * homeAwayAdjustment';
         defenseAdjustment' =
           (if oppGoalsAgainstPerGame matchup > 3.3 then 1.15
            else if oppGoalsAgainstPerGame matchup < 2.7 then 0.88 else 1.0);
         expected' = expected' * defenseAdjustment'
     in \<lparr>expected = max 0 expected',
         factors = \<lparr>baseGoalsPerGame = baseAssistsPerGame,
                     recentFormMultiplier = recentFormMultiplier', ppBoost = ppBoost',
                     goalieAdjustment = goalieAdjustment',
                     homeAwayAdjustment = homeAwayAdjustment',
                     defenseAdjustment = defenseAdjustment'\<rparr>\<rparr>)"

definition calculateExpectedPoints :: "PlayerStats \<Rightarrow> MatchupData \<Rightarrow> ExpectedResult" where
  "calculateExpectedPoints player matchup =
    (let basePointsPerGame =
           (RECENT_WEIGHT * recentPointsPerGame player)
           + (SEASON_WEIGHT * seasonPointsPerGame player);
         expected' = basePointsPerGame;
         recentFormMultiplier' =
           (if seasonPointsPerGame player > 0 \<and> recentPointsPerGame player > 0 then
              let pointsTrend = recentPointsPerGame player / seasonPointsPerGame player
              in 0.75 + (0.25 * min 1.25 (max 0.75 pointsTrend))
            else 1.0);
         expected' = expected' * recentFormMultiplier';
         avgPPTime = (recentPPTimePerGame player + seasonPPTimePerGame player) / 2;
         ppBoost' = (if avgPPTime \<ge> 4.0 then 1.22 else if avgPPTime \<ge> 2.5 then 1.11 else 1.0);
         expected' = expected' * ppBoost';
         goalieDiff = LEAGUE_AVG_SAVE_PCT - oppGoalieSavePct matchup;
         goalieAdjustment' = max 0.85 (min 1.20 (1 + (goalieDiff * 2.5)));
         expected' = expected' * goalieAdjustment';
         homeAwayAdjustment' = (if isHome matchup then 1.05 else 0.95);
         expected' = expected' * homeAwayAdjustment';
         defenseAdjustment' =
           (if oppGoalsAgainstPerGame matchup > 3.3 then 1.18
            else if oppGoalsAgainstPerGame matchup < 2.7 then 0.85 else 1.0);
         expected' = expected' * defenseAdjustment'
     in \<lparr>expected = max 0 expected',
         factors = \<lparr>baseGoalsPerGame = basePointsPerGame,
                     recentFormMultiplier = recentFormMultiplier', ppBoost = ppBoost',
                     goalieAdjustment = goalieAdjustment',
                     homeAwayAdjustment = homeAwayAdjustment',
                     defenseAdjustment = defenseAdjustment'\<rparr>\<rparr>)"

definition goalProbability :: "real \<Rightarrow> real" where
  "goalProbability lambda = 1 - exp (- lambda)"

definition normalCDF :: "real \<Rightarrow> real" where
  "normalCDF z0 =
    (let a1 = 0.254829592;
         a2 = - 0.284496736;
         a3 = 1.421413741;
         a4 = - 1.453152027;
         a5 = 1.061405429;
         p = 0.3275911;
         sign = (if z0 < 0 then - 1 else 1);
         z = \<bar>z0\<bar> / sqrt 2;
         t = 1.0 / (1.0 + p * z);
         y = 1.0 - (((((a5 * t + a4) * t) + a3) * t + a2) * t + a1) * t * exp (- z * z)
     in 0.5 * (1.0 + sign * y))"

text \<open>\<open>factorial\<close> is only called with the loop counter of \<open>calculateProbability\<close>, a
  non-negative integer.\<close>

definition factorial :: "nat \<Rightarrow> real" where
  "factorial n = (if n \<le> 1 then 1 else foldl (\<lambda>result i. result * real i) 1 [2 ..< n + 1])"

definition calculateProbability :: "real \<Rightarrow> real \<Rightarrow> PropType \<Rightarrow> real" where
  "calculateProbability expected' line propType =
    (if propType = Shots then
       let stdDev = sqrt expected' * 0.8
       in if stdDev = 0 then (if expected' > line then 0.99 else 0.01)
          else
            let z = (line - expected') / stdDev;
                prob = 1 - normalCDF z
            in max 0.01 (min 0.99 prob)
     else if line = 0.5 then 1 - exp (- expected')
     else
       let targetK = \<lfloor>line\<rfloor>;
           cumulativeProb =
             (if targetK < 0 then 0
              else foldl (\<lambda>cumulativeProb k.
                     cumulativeProb + (expected' ^ k * exp (- expected')) / factorial k)
                   0 [0 ..< nat targetK + 1])
       in max 0.01 (min 0.99 (1 - cumulativeProb)))"

text \<open>The prop-specific season rate read by \<open>calculateConfidence\<close> and by the quality filter
  of \<open>predictPlayerProp\<close> (the same \<open>switch\<close> in both).\<close>

fun production :: "PlayerStats \<Rightarrow> PropType \<Rightarrow> real" where
  "production player Goalscorer = seasonGoalsPerGame player"
| "production player Shots = seasonShotsPerGame player"
| "production player Assists = seasonAssistsPerGame player"
| "production player Points = seasonPointsPerGame player"

definition calculateConfidence :: "PlayerStats \<Rightarrow> PropType \<Rightarrow> real" where
  "calculateConfidence player propType =
    (let confidence' = 0.50;
         confidence' =
           (if ps_gamesPlayed player \<ge> 40 then confidence' + 0.15
            else if ps_gamesPlayed player \<ge> 25 then confidence' + 0.10
            else if ps_gamesPlayed player \<ge> real MIN_GAMES_FOR_PREDICTION then confidence' + 0.05
            else confidence');
         threshold = QUALITY_THRESHOLDS propType;
         production' = production player propType;
         confidence' =
           (if production' \<ge> threshold * 3 then confidence' + 0.15
            else if production' \<ge> threshold * 2 then confidence' + 0.10
            else if production' \<ge> threshold then confidence' + 0.05
            else confidence');
         confidence' =
           (if seasonShotsPerGame player \<ge> 4.0 then confidence' + 0.10
            else if seasonShotsPerGame player \<ge> 3.0 then confidence' + 0.05
            else confidence');
         confidence' =
           (if recentGames player \<ge> 5 then
              let formDiff = \<bar>recentGoalsPerGame player - seasonGoalsPerGame player\<bar>
              in if formDiff < 0.1 then confidence' + 0.05 else confidence'
            else confidence')
     in min 0.95 confidence')"

text \<open>\<open>predictPlayerProp\<close> awaits \<open>fetchPlayerGameLogs\<close> and \<open>fetchTeamDefense\<close>; their
  results are the parameters \<open>gameLogs\<close> (empty when the fetch fails) and \<open>oppDefense\<close>
  (\<open>null\<close> when it fails). The value \<open>null\<close> of the result is \<open>None\<close>. The displayed
  \<open>reasoning\<close> list is left out.\<close>

definition predictPlayerProp ::
  "real \<Rightarrow> string \<Rightarrow> string \<Rightarrow> string \<Rightarrow> string \<Rightarrow> bool \<Rightarrow> PropType
   \<Rightarrow> PlayerGameLog list \<Rightarrow> TeamDefense option \<Rightarrow> PredictionResult option" where
  "predictPlayerProp playerId' playerName' teamAbbrev' position' opponentAbbrev' isHome'
     propType gameLogs oppDefense =
    (case calculatePlayerStats playerId' playerName' teamAbbrev' position' gameLogs of
       None \<Rightarrow> None
     | Some playerStats \<Rightarrow>
         let threshold = QUALITY_THRESHOLDS propType;
             production' = production playerStats propType
         in if production' < threshold then None
            else
              let matchup =
                    \<lparr>oppTeamAbbrev = opponentAbbrev',
                     oppGoalsAgainstPerGame =
                       js_or (case oppDefense of None \<Rightarrow> 0 | Some d \<Rightarrow> goalsAgainstPerGame d)
                         LEAGUE_AVG_GOALS_AGAINST,
                     oppGoalieSavePct =
                       js_or (case oppDefense of None \<Rightarrow> 0 | Some d \<Rightarrow> savePct d)
                         LEAGUE_AVG_SAVE_PCT,
                     isHome = isHome'\<rparr>;
                  goalsResult = calculateExpectedGoals playerStats matchup;
                  shotsResult = calculateExpectedShots playerStats matchup;
                  assistsResult = calculateExpectedAssists playerStats matchup;
                  pointsResult = calculateExpectedPoints playerStats matchup;
                  relevantResult =
                    (case propType of
                       Goalscorer \<Rightarrow> goalsResult
                     | Shots \<Rightarrow> shotsResult
                     | Assists \<Rightarrow> assistsResult
                     | Points \<Rightarrow> pointsResult);
                  expectedValue' = expected relevantResult;
                  line = DEFAULT_LINES propType;
                  probability' = calculateProbability expectedValue' line propType;
                  confidence' = calculateConfidence playerStats propType
              in Some
                \<lparr>pr_playerId = playerId', pr_playerName = playerName',
                 pr_teamAbbrev = teamAbbrev', opponent = opponentAbbrev',
                 pr_propType = propType,
                 expectedGoals = expected goalsResult,
                 expectedShots = expected shotsResult,
                 expectedAssists = expected assistsResult,
                 expectedPoints = expected pointsResult,
                 pr_expectedValue = expectedValue',
                 probability = probability',
                 pr_confidence = confidence',
                 pr_gamesPlayed = ps_gamesPlayed playerStats,
                 pr_factors = factors relevantResult\<rparr>)"

section \<open>Injury service: two-source validation\<close>

text \<open>\<open>src/lib/injury-service.ts\<close>. A JavaScript \<open>Set\<close> is a list of its elements in
  insertion order, without duplicates; \<open>has\<close>, \<open>size\<close> and \<open>add\<close> are the three
  operations the code uses. A \<open>Map\<close> that is iterated is an association list in insertion
  order; a \<open>Map\<close> that is only written and looked up is a partial function.\<close>

definition Set_has :: "'a list \<Rightarrow> 'a \<Rightarrow> bool" where
  "Set_has s x = (x \<in> set s)"

definition Set_size :: "'a list \<Rightarrow> nat" where
  "Set_size s = length s"

definition Set_add :: "'a list \<Rightarrow> 'a \<Rightarrow> 'a list" where
  "Set_add s x = (if x \<in> set s then s else s @ [x])"

datatype InjuryStatus = OUT | DAY_TO_DAY | IR | LTIR | SUSPENDED | QUESTIONABLE

record PlayerInjury =
  playerId :: string
  playerName :: string
  team :: string
  teamAbbrev :: string
  position :: string
  status :: InjuryStatus
  injuryType :: string
  description :: string
  expectedReturn :: "string option"
  gamesOut :: "real option"
  updatedAt :: string

datatype EspnStatus = espn_injured | espn_healthy | espn_unknown

datatype OddsStatus = has_props | no_props | odds_unknown

datatype Verdict = verdict_OUT | PLAYING | UNCERTAIN

record PlayerAvailability =
  av_playerName :: string
  normalizedName :: string
  av_team :: string
  espnStatus :: EspnStatus
  oddsStatus :: OddsStatus
  finalVerdict :: Verdict
  sourcesAgree :: nat
  injuryDetails :: "PlayerInjury option"
  reasoning :: string

definition validatePlayerAvailability ::
  "string \<Rightarrow> string list \<Rightarrow> string list \<Rightarrow> PlayerInjury option \<Rightarrow> PlayerAvailability" where
  "validatePlayerAvailability normalized espnInjured playersWithProps injuryDetails' =
    (let espnStatus' = (if Set_has espnInjured normalized then espn_injured else espn_healthy);
         oddsStatus' =
           (if Set_size playersWithProps > 0
            then (if Set_has playersWithProps normalized then has_props else no_props)
            else odds_unknown);
         (finalVerdict', sourcesAgree', reasoning') =
           (if espnStatus' = espn_injured then
              (if oddsStatus' = has_props then
                 (UNCERTAIN, 0,
                  ''ESPN says injured but has sportsbook props - game-time decision?'')
               else
                 (verdict_OUT, (if oddsStatus' = no_props then 2 else 1),
                  ''ESPN: injured'' @ (if oddsStatus' = no_props then '', no props'' else '''')))
            else
              (if oddsStatus' = has_props then
                 (PLAYING, 2, ''ESPN: healthy, has props'')
               else
                 (PLAYING, 1,
                  ''ESPN: healthy''
                    @ (if oddsStatus' = no_props then '' (no props listed)'' else ''''))))
     in \<lparr>av_playerName =
           (case injuryDetails' of
              None \<Rightarrow> normalized
            | Some d \<Rightarrow> (if playerName d = [] then normalized else playerName d)),
         normalizedName = normalized,
         av_team = (case injuryDetails' of None \<Rightarrow> [] | Some d \<Rightarrow> team d),
         espnStatus = espnStatus',
         oddsStatus = oddsStatus',
         finalVerdict = finalVerdict',
         sourcesAgree = sourcesAgree',
         injuryDetails = injuryDetails',
         reasoning = reasoning'\<rparr>)"

section \<open>Injury service: importance of a player\<close>

text \<open>A skater or goalie of the NHL club-stats response, an untyped JSON object in the
  source. Only the fields the code reads are kept; its numbers are binary64 values, an
  absent number is \<open>0\<close> (every read goes through \<open>x || d\<close> or a truthiness test) and an
  absent text is empty. \<open>firstName\<close> and \<open>lastName\<close> stand for \<open>firstName.default\<close> and
  \<open>lastName.default\<close>.\<close>

record RawPlayer =
  rp_playerId :: string
  rp_firstName :: string
  rp_lastName :: string
  rp_positionCode :: string
  rp_gamesPlayed :: double
  rp_points :: double
  rp_goals :: double
  rp_avgToi :: double
  rp_powerPlayPoints :: double
  rp_savePctg :: double
  rp_savePercentage :: double

record TeamStats =
  ts_points :: double
  ts_goals :: double

record PlayerImportance =
  imp_playerId :: string
  imp_position :: string
  tier :: nat
  importanceScore :: double
  pointsShare :: double
  toiRank :: nat
  ppTimeShare :: double
  pkTimeShare :: double
  goalsAboveExpected :: double
  winProbImpact :: double
  ppImpact :: double
  pkImpact :: double

datatype RiskLevel = risk_low | risk_medium | risk_high | risk_extreme

record StarConcentration =
  tier1Count :: nat
  tier2Count :: nat
  topPlayerShare :: double
  secondPlayerShare :: double
  hasSecondaryStar :: bool
  concentrationMultiplier :: double
  riskLevel :: RiskLevel

text \<open>\<open>POSITION_VALUE[position] || 1.0\<close> and \<open>MAX_WIN_PROB_IMPACT[position] || 0.05\<close>.\<close>

definition POSITION_VALUE :: "string \<Rightarrow> double" where
  "POSITION_VALUE pos =
    (if pos = ''G'' then lit 1.5 else if pos = ''D'' then lit 1.2 else if pos = ''C'' then lit 1.1
     else if pos = ''LW'' then lit 1.0 else if pos = ''RW'' then lit 1.0
     else if pos = ''F'' then lit 1.05 else lit 1.0)"

definition MAX_WIN_PROB_IMPACT :: "string \<Rightarrow> double" where
  "MAX_WIN_PROB_IMPACT pos =
    (if pos = ''G'' then lit 0.1 else if pos = ''D'' then lit 0.07 else if pos = ''C'' then lit 0.06
     else if pos = ''LW'' then lit 0.05 else if pos = ''RW'' then lit 0.05
     else if pos = ''F'' then lit 0.05 else lit 0.05)"

definition tierOf :: "double \<Rightarrow> nat" where
  \<comment> \<open>the chain over \<open>TIER_THRESHOLDS\<close>, the same in both importance functions\<close>
  "tierOf score =
    (if score \<ge> lit 0.7 then 1 else if score \<ge> lit 0.5 then 2 else if score \<ge> lit 0.35 then 3
     else if score \<ge> lit 0.2 then 4 else 5)"

fun STAR_CONCENTRATION_MULTIPLIERS :: "RiskLevel \<Rightarrow> double" where
  "STAR_CONCENTRATION_MULTIPLIERS risk_extreme = lit 1.4"
| "STAR_CONCENTRATION_MULTIPLIERS risk_high = lit 1.25"
| "STAR_CONCENTRATION_MULTIPLIERS risk_medium = lit 1.0"
| "STAR_CONCENTRATION_MULTIPLIERS risk_low = lit 0.8"

text \<open>\<open>xs.findIndex(P) + 1\<close>: the one-based position of the first match, \<open>0\<close> without a
  match.\<close>

fun findIndexPlus1 :: "('a \<Rightarrow> bool) \<Rightarrow> 'a list \<Rightarrow> nat" where
  "findIndexPlus1 P [] = 0"
| "findIndexPlus1 P (x # xs) =
     (if P x then 1 else (case findIndexPlus1 P xs of 0 \<Rightarrow> 0 | Suc n \<Rightarrow> Suc (Suc n)))"

text \<open>\<open>[...xs].sort((a, b) => (key(b) || 0) - (key(a) || 0))\<close>: a stable sort, largest
  key first.\<close>

definition sortDescending :: "('a \<Rightarrow> double) \<Rightarrow> 'a list \<Rightarrow> 'a list" where
  "sortDescending key xs =
    Array_sort (\<lambda>a b. js_or_else (key b) (lit 0) - js_or_else (key a) (lit 0)) xs"

definition calculateStarConcentration :: "RawPlayer list \<Rightarrow> TeamStats \<Rightarrow> StarConcentration" where
  "calculateStarConcentration players teamStats =
    (if players = [] then
       \<lparr>tier1Count = 0, tier2Count = 0, topPlayerShare = lit 0, secondPlayerShare = lit 0,
        hasSecondaryStar = False, concentrationMultiplier = lit 1.0, riskLevel = risk_low\<rparr>
     else
       let sortedByPoints = sortDescending rp_points players;
           totalTeamPoints =
             js_or_else
               (js_or_else (ts_points teamStats)
                  (foldl (\<lambda>sum p. sum + js_or_else (rp_points p) (lit 0)) (lit 0) sortedByPoints))
               (lit 1);
           topPlayerShare' = js_or_else (rp_points (hd sortedByPoints)) (lit 0) / totalTeamPoints;
           secondPlayerShare' =
             (if length sortedByPoints > 1
              then js_or_else (rp_points (sortedByPoints ! 1)) (lit 0) / totalTeamPoints
              else lit 0);
           tier1Count' =
             length (filter (\<lambda>p. js_or_else (rp_points p) (lit 0) / totalTeamPoints \<ge> lit 0.2)
                       sortedByPoints);
           tier2Count' =
             length (filter (\<lambda>p. \<not> js_or_else (rp_points p) (lit 0) / totalTeamPoints \<ge> lit 0.2
                                \<and> js_or_else (rp_points p) (lit 0) / totalTeamPoints \<ge> lit 0.15)
                       sortedByPoints);
           hasSecondaryStar' = (secondPlayerShare' \<ge> lit 0.15);
           riskLevel' =
             (if tier1Count' = 1 \<and> \<not> hasSecondaryStar' then risk_extreme
              else if tier1Count' = 1 \<and> hasSecondaryStar' then risk_high
              else if tier1Count' \<ge> 2 then risk_medium
              else risk_low)
       in \<lparr>tier1Count = tier1Count', tier2Count = tier2Count',
           topPlayerShare = topPlayerShare', secondPlayerShare = secondPlayerShare',
           hasSecondaryStar = hasSecondaryStar',
           concentrationMultiplier = STAR_CONCENTRATION_MULTIPLIERS riskLevel',
           riskLevel = riskLevel'\<rparr>)"

definition calculateGoalieImportance :: "RawPlayer \<Rightarrow> RawPlayer list \<Rightarrow> PlayerImportance" where
  "calculateGoalieImportance playerStats goalies =
    (let sortedGoalies = sortDescending rp_gamesPlayed goalies;
         toiRank' = findIndexPlus1 (\<lambda>g. rp_playerId g = rp_playerId playerStats) sortedGoalies;
         savePct' =
           js_or_else (js_or_else (rp_savePctg playerStats) (rp_savePercentage playerStats))
             (lit 0.905);
         savePctAboveAvg = savePct' - lit 0.905;
         isStarter = (toiRank' = 1);
         gamesPlayed' = js_or_else (rp_gamesPlayed playerStats) (lit 1);
         importanceScore' = lit 0.5;
         importanceScore' = (if isStarter then importanceScore' + lit 0.3 else importanceScore');
         importanceScore' =
           (if savePctAboveAvg > lit 0.01 then importanceScore' + lit 0.2 else importanceScore');
         importanceScore' =
           (if gamesPlayed' > lit 30 then importanceScore' + lit 0.1 else importanceScore');
         importanceScore' = Math_min (lit 1.0) importanceScore';
         tier' = tierOf importanceScore';
         maxImpact = MAX_WIN_PROB_IMPACT ''G'';
         winProbImpact' = - (importanceScore' * maxImpact * POSITION_VALUE ''G'')
     in \<lparr>imp_playerId = rp_playerId playerStats, imp_position = ''G'', tier = tier',
         importanceScore = importanceScore', pointsShare = lit 0, toiRank = toiRank',
         ppTimeShare = lit 0, pkTimeShare = lit 0,
         goalsAboveExpected = savePctAboveAvg * gamesPlayed' * lit 30,
         winProbImpact = winProbImpact', ppImpact = lit 0, pkImpact = winProbImpact' * lit 0.3\<rparr>)"

definition calculatePlayerImportance ::
  "RawPlayer \<Rightarrow> TeamStats \<Rightarrow> RawPlayer list \<Rightarrow> PlayerImportance" where
  "calculatePlayerImportance playerStats teamStats players =
    (let position' =
           (if rp_positionCode playerStats = [] then ''F'' else rp_positionCode playerStats);
         totalTeamPoints =
           js_or_else
             (js_or_else (ts_points teamStats)
                (foldl (\<lambda>sum p. sum + js_or_else (rp_points p) (lit 0)) (lit 0) players))
             (lit 1);
         playerPoints = js_or_else (rp_points playerStats) (lit 0);
         pointsShare' =
           (if totalTeamPoints > lit 0 then playerPoints / totalTeamPoints else lit 0);
         sortedByToi = sortDescending rp_avgToi players;
         toiRank' = findIndexPlus1 (\<lambda>p. rp_playerId p = rp_playerId playerStats) sortedByToi;
         ppTimeShare' =
           (if truthy (rp_powerPlayPoints playerStats)
            then (rp_powerPlayPoints playerStats / js_or_else playerPoints (lit 1)) * lit 0.3
            else lit 0.1);
         pkTimeShare' = (if position' = ''D'' \<or> position' = ''C'' then lit 0.15 else lit 0.05);
         gamesPlayed' = js_or_else (rp_gamesPlayed playerStats) (lit 1);
         goalsPerGame = js_or_else (rp_goals playerStats) (lit 0) / gamesPlayed';
         expectedGoalsPerGame = lit 0.15;
         goalsAboveExpected' = (goalsPerGame - expectedGoalsPerGame) * gamesPlayed';
         importanceScore' = pointsShare' * lit 2;
         importanceScore' =
           (if toiRank' \<le> 6 then importanceScore' + lit 0.15 else importanceScore');
         importanceScore' =
           (if position' = ''C'' then importanceScore' + lit 0.05 else importanceScore');
         importanceScore' =
           (if position' = ''D'' then importanceScore' + lit 0.1 else importanceScore');
         importanceScore' = Math_min (lit 1.0) importanceScore';
         tier' = tierOf importanceScore';
         positionValue = POSITION_VALUE position';
         maxImpact = MAX_WIN_PROB_IMPACT position';
         winProbImpact' = - (importanceScore' * maxImpact * positionValue);
         ppImpact' = - (ppTimeShare' * importanceScore' * lit 0.1);
         pkImpact' = - (pkTimeShare' * importanceScore' * lit 0.05)
     in \<lparr>imp_playerId = rp_playerId playerStats, imp_position = position', tier = tier',
         importanceScore = importanceScore', pointsShare = pointsShare', toiRank = toiRank',
         ppTimeShare = ppTimeShare', pkTimeShare = pkTimeShare',
         goalsAboveExpected = goalsAboveExpected',
         winProbImpact = winProbImpact', ppImpact = ppImpact', pkImpact = pkImpact'\<rparr>)"

section \<open>Injury service: team impact\<close>

text \<open>\<open>calculateCompoundingMultiplier\<close> as \<open>calculateTeamImpact\<close> calls it, on binary64
  numbers.\<close>

definition calculateCompoundingMultiplier_binary64 :: "double \<Rightarrow> double \<Rightarrow> double" where
  "calculateCompoundingMultiplier_binary64 injuryCount manGamesLost =
    (let multiplier = lit 1.0;
         multiplier = (if injuryCount \<ge> lit 2 then lit 0.15 else multiplier);
         multiplier = (if injuryCount \<ge> lit 3 then lit 0.3 else multiplier);
         multiplier = (if injuryCount \<ge> lit 4 then lit 0.5 else multiplier);
         multiplier = (if injuryCount \<ge> lit 5 then lit 0.75 else multiplier);
         multiplier = (if manGamesLost > lit 30 then multiplier * lit 1.1 else multiplier)
     in Math_min multiplier (lit 2.0))"

datatype GoalieSituation = starter | backup | emergency | situation_unknown

text \<open>\<open>TeamInjuryImpact\<close> without the displayed \<open>summary\<close> and without the
  \<open>affectedLinemates\<close> map, which no adjustment reads. An entry of \<open>starPlayersOut\<close> is the
  pair of the name and the tier that the source formats into one text. \<open>injuryCount\<close> is
  the length of an array.\<close>

record TeamInjuryImpact =
  ti_teamAbbrev :: string
  injuries :: "PlayerInjury list"
  totalWinProbAdjustment :: double
  powerPlayAdjustment :: double
  penaltyKillAdjustment :: double
  expectedGoalsForAdjustment :: double
  expectedGoalsAgainstAdjustment :: double
  goalieSituation :: GoalieSituation
  isBackupGoalieElite :: bool
  linePromotions :: double
  defenseDisruption :: double
  manGamesLost :: double
  injuryCount :: nat
  compoundingMultiplier :: double
  starConcentration :: StarConcentration
  starPlayersOut :: "(string \<times> nat) list"

text \<open>The variables of the loop over the active injuries in \<open>calculateTeamImpact\<close>.\<close>

record ImpactLoop =
  impact :: TeamInjuryImpact
  centersOut :: nat
  defensemenOut :: nat
  topPlayerInjured :: bool

text \<open>The stand-in objects built when no statistics match the injured player:
  \<open>playerName.split(" ")[0]\<close> is the text before the first blank and
  \<open>playerName.split(" ").slice(1).join(" ")\<close> the text after it.\<close>

definition goaliePlaceholder :: "PlayerInjury \<Rightarrow> RawPlayer" where
  "goaliePlaceholder injury =
    \<lparr>rp_playerId = playerId injury,
     rp_firstName = takeWhile (\<lambda>c. c \<noteq> CHR '' '') (playerName injury),
     rp_lastName = drop 1 (dropWhile (\<lambda>c. c \<noteq> CHR '' '') (playerName injury)),
     rp_positionCode = [], rp_gamesPlayed = lit 30, rp_points = lit 0, rp_goals = lit 0,
     rp_avgToi = lit 0, rp_powerPlayPoints = lit 0, rp_savePctg = lit 0.91,
     rp_savePercentage = lit 0\<rparr>"

definition skaterPlaceholder :: "PlayerInjury \<Rightarrow> RawPlayer" where
  "skaterPlaceholder injury =
    \<lparr>rp_playerId = playerId injury,
     rp_firstName = takeWhile (\<lambda>c. c \<noteq> CHR '' '') (playerName injury),
     rp_lastName = drop 1 (dropWhile (\<lambda>c. c \<noteq> CHR '' '') (playerName injury)),
     rp_positionCode = position injury, rp_gamesPlayed = lit 40, rp_points = lit 20,
     rp_goals = lit 0, rp_avgToi = lit 900, rp_powerPlayPoints = lit 0, rp_savePctg = lit 0,
     rp_savePercentage = lit 0\<rparr>"

text \<open>The body of the loop. \<open>normalizePlayerName\<close> removes Unicode combining marks, a
  generational suffix and every character other than lower-case letters, blanks and
  hyphens; it is a parameter here, and every result below holds for any such function.\<close>

definition impactStep ::
  "(string \<Rightarrow> string) \<Rightarrow> RawPlayer list \<Rightarrow> RawPlayer list \<Rightarrow> TeamStats
   \<Rightarrow> ImpactLoop \<Rightarrow> PlayerInjury \<Rightarrow> ImpactLoop" where
  "impactStep normalizePlayerName players goalies teamStats st injury =
    (let playerStats =
           find (\<lambda>p. normalizePlayerName (rp_firstName p @ '' '' @ rp_lastName p)
                      = normalizePlayerName (playerName injury))
             (players @ goalies);
         (importance, st) =
           (if position injury = ''G'' then
              let importance =
                    calculateGoalieImportance
                      (case playerStats of Some p \<Rightarrow> p | None \<Rightarrow> goaliePlaceholder injury)
                      goalies
              in (case playerStats of
                    None \<Rightarrow>
                      (importance, st\<lparr>impact := (impact st)\<lparr>goalieSituation := backup\<rparr>\<rparr>)
                  | Some p \<Rightarrow>
                      if rp_playerId p = [] then
                        (importance, st\<lparr>impact := (impact st)\<lparr>goalieSituation := backup\<rparr>\<rparr>)
                      else if toiRank importance = 1 then
                        (importance, st\<lparr>impact := (impact st)\<lparr>goalieSituation := starter\<rparr>\<rparr>)
                      else
                        let st = st\<lparr>impact := (impact st)\<lparr>goalieSituation := backup\<rparr>\<rparr>
                        in (case find (\<lambda>g. rp_playerId g \<noteq> rp_playerId p) goalies of
                              None \<Rightarrow> (importance, st)
                            | Some b \<Rightarrow>
                                if js_or_else (js_or_else (rp_savePctg b) (rp_savePercentage b))
                                     (lit 0) \<ge> lit 0.913
                                then (importance\<lparr>winProbImpact :=
                                                   winProbImpact importance * lit 0.5\<rparr>,
                                      st\<lparr>impact := (impact st)\<lparr>isBackupGoalieElite := True\<rparr>\<rparr>)
                                else (importance, st)))
            else
              let importance =
                    calculatePlayerImportance
                      (case playerStats of Some p \<Rightarrow> p | None \<Rightarrow> skaterPlaceholder injury)
                      teamStats players;
                  st = (if position injury = ''C''
                        then st\<lparr>centersOut := centersOut st + 1\<rparr> else st);
                  st = (if position injury = ''D''
                        then st\<lparr>defensemenOut := defensemenOut st + 1\<rparr> else st);
                  st = (if tier importance = 1 then st\<lparr>topPlayerInjured := True\<rparr> else st)
              in (importance, st));
         i = impact st;
         i = i\<lparr>totalWinProbAdjustment := totalWinProbAdjustment i + winProbImpact importance\<rparr>;
         i = i\<lparr>powerPlayAdjustment := powerPlayAdjustment i + ppImpact importance\<rparr>;
         i = i\<lparr>penaltyKillAdjustment := penaltyKillAdjustment i + pkImpact importance\<rparr>;
         i = (if tier importance \<le> 2
              then i\<lparr>starPlayersOut := starPlayersOut i @ [(playerName injury, tier importance)]\<rparr>
              else i);
         i = i\<lparr>manGamesLost := manGamesLost i + lit 5\<rparr>
     in st\<lparr>impact := i\<rparr>)"

text \<open>\<open>fetchTeamPlayerStats\<close> for a response that arrived: the skaters and goalies of the
  response, and the team totals summed over the skaters. Without a response the result is
  no player and an empty \<open>teamStats\<close> object.\<close>

definition fetchTeamPlayerStats_ok ::
  "RawPlayer list \<Rightarrow> RawPlayer list \<Rightarrow> RawPlayer list \<times> RawPlayer list \<times> TeamStats" where
  "fetchTeamPlayerStats_ok skaters goalies' =
    (skaters, goalies',
     \<lparr>ts_points = foldl (\<lambda>sum p. sum + js_or_else (rp_points p) (lit 0)) (lit 0) skaters,
      ts_goals = foldl (\<lambda>sum p. sum + js_or_else (rp_goals p) (lit 0)) (lit 0) skaters\<rparr>)"

text \<open>\<open>calculateTeamImpact\<close> awaits \<open>fetchTeamPlayerStats\<close>; its result is the three
  parameters \<open>players\<close>, \<open>goalies\<close> and \<open>teamStats\<close>. The writes to the module cache
  (\<open>teamStarConcentration\<close>, \<open>playerImportance\<close>) are not part of the returned value and
  are left out.\<close>

definition calculateTeamImpact ::
  "(string \<Rightarrow> string) \<Rightarrow> RawPlayer list \<Rightarrow> RawPlayer list \<Rightarrow> TeamStats
   \<Rightarrow> string \<Rightarrow> PlayerInjury list \<Rightarrow> TeamInjuryImpact" where
  "calculateTeamImpact normalizePlayerName players goalies teamStats teamAbbrev' injuries' =
    (let starConcentration' = calculateStarConcentration players teamStats;
         impact0 =
           \<lparr>ti_teamAbbrev = teamAbbrev', injuries = injuries',
            totalWinProbAdjustment = lit 0, powerPlayAdjustment = lit 0,
            penaltyKillAdjustment = lit 0,
            expectedGoalsForAdjustment = lit 0, expectedGoalsAgainstAdjustment = lit 0,
            goalieSituation = starter, isBackupGoalieElite = False,
            linePromotions = lit 0, defenseDisruption = lit 0, manGamesLost = lit 0,
            injuryCount = 0,
            compoundingMultiplier = lit 1.0, starConcentration = starConcentration',
            starPlayersOut = []\<rparr>;
         activeInjuries =
           filter (\<lambda>i. status i = OUT \<or> status i = IR \<or> status i = LTIR
                        \<or> status i = SUSPENDED \<or> status i = DAY_TO_DAY) injuries'
     in
     if length activeInjuries = 0 then impact0
     else
       let impact0 = impact0\<lparr>injuryCount := length activeInjuries\<rparr>;
           st = foldl (impactStep normalizePlayerName players goalies teamStats)
                  \<lparr>impact = impact0, centersOut = 0, defensemenOut = 0,
                   topPlayerInjured = False\<rparr>
                  activeInjuries;
           i = impact st;
           i = (if centersOut st \<ge> 1
                then i\<lparr>linePromotions := linePromotions i + ofNat (centersOut st) * lit 3,
                       expectedGoalsForAdjustment :=
                         expectedGoalsForAdjustment i - lit 0.15 * ofNat (centersOut st)\<rparr>
                else i);
           i = (if defensemenOut st \<ge> 1
                then i\<lparr>defenseDisruption := Math_min (ofNat (defensemenOut st) * lit 0.3) (lit 1.0),
                       expectedGoalsAgainstAdjustment :=
                         expectedGoalsAgainstAdjustment i + lit 0.2 * ofNat (defensemenOut st)\<rparr>
                else i);
           i = i\<lparr>compoundingMultiplier :=
                   calculateCompoundingMultiplier_binary64 (ofNat (injuryCount i)) (manGamesLost i)\<rparr>;
           concentrationMultiplier' =
             (if length (starPlayersOut i) > 0 \<or> topPlayerInjured st
              then concentrationMultiplier starConcentration' else lit 1.0);
           i = i\<lparr>totalWinProbAdjustment :=
                   totalWinProbAdjustment i * (compoundingMultiplier i * concentrationMultiplier')\<rparr>;
           i = i\<lparr>powerPlayAdjustment := powerPlayAdjustment i * compoundingMultiplier i\<rparr>;
           i = i\<lparr>penaltyKillAdjustment := penaltyKillAdjustment i * compoundingMultiplier i\<rparr>;
           i = i\<lparr>totalWinProbAdjustment :=
                   Math_max (- lit 0.3) (Math_min (lit 0.3) (totalWinProbAdjustment i))\<rparr>;
           i = i\<lparr>powerPlayAdjustment :=
                   Math_max (- lit 0.15) (Math_min (lit 0.15) (powerPlayAdjustment i))\<rparr>;
           i = i\<lparr>penaltyKillAdjustment :=
                   Math_max (- lit 0.1) (Math_min (lit 0.1) (penaltyKillAdjustment i))\<rparr>;
           i = i\<lparr>expectedGoalsForAdjustment :=
                   Math_max (- lit 0.5) (Math_min (lit 0.5) (expectedGoalsForAdjustment i))\<rparr>;
           i = i\<lparr>expectedGoalsAgainstAdjustment :=
                   Math_max (- lit 0.5) (Math_min (lit 0.5) (expectedGoalsAgainstAdjustment i))\<rparr>
       in i)"

section \<open>Injury service: refreshing the cache\<close>

record ValidationSummary =
  espnCount :: nat
  propsCount :: nat
  agreedOut :: nat
  agreedPlaying :: nat
  uncertain :: nat

text \<open>The variables of the validation loop in \<open>refreshInjuryCache\<close>.\<close>

record ValidationLoop =
  vl_playerAvailability :: "string \<rightharpoonup> PlayerAvailability"
  vl_allInjuredNames :: "string list"
  vl_agreedOut :: nat
  vl_agreedPlaying :: nat
  vl_uncertain :: nat

text \<open>The fields of \<open>injuryCache\<close> that \<open>refreshInjuryCache\<close> replaces (the timestamp
  apart).\<close>

record InjuryCache =
  ic_injuries :: "(string \<times> PlayerInjury list) list"
  allInjuredNames :: "string list"
  ic_espnInjured :: "string list"
  ic_playersWithProps :: "string list"
  playerAvailability :: "string \<rightharpoonup> PlayerAvailability"
  teamImpacts :: "(string \<times> TeamInjuryImpact) list"
  validationSummary :: ValidationSummary

text \<open>Step 2: the set of normalized names of the players with an active ESPN status, built
  by the nested loop over the teams and their injuries.\<close>

definition buildEspnInjured ::
  "(string \<Rightarrow> string) \<Rightarrow> (string \<times> PlayerInjury list) list \<Rightarrow> string list" where
  "buildEspnInjured normalizePlayerName espnInjuries =
    foldl (\<lambda>espnInjured injury.
             if status injury = OUT \<or> status injury = IR \<or> status injury = LTIR
                \<or> status injury = DAY_TO_DAY \<or> status injury = SUSPENDED
             then Set_add espnInjured (normalizePlayerName (playerName injury))
             else espnInjured)
      [] (concat (map snd espnInjuries))"

text \<open>Step 3, the body of the loop over the players to check. The inner loop with its
  \<open>break\<close> finds the first injury with the normalized name over all teams in order.\<close>

definition validationStep ::
  "(string \<Rightarrow> string) \<Rightarrow> (string \<times> PlayerInjury list) list \<Rightarrow> string list \<Rightarrow> string list
   \<Rightarrow> ValidationLoop \<Rightarrow> string \<Rightarrow> ValidationLoop" where
  "validationStep normalizePlayerName espnInjuries espnInjured playersWithProps st name =
    (let injuryDetails' =
           find (\<lambda>i. normalizePlayerName (playerName i) = name)
             (concat (map snd espnInjuries));
         availability =
           validatePlayerAvailability name espnInjured playersWithProps injuryDetails';
         st = st\<lparr>vl_playerAvailability := (vl_playerAvailability st)(name \<mapsto> availability)\<rparr>
     in if finalVerdict availability = verdict_OUT then
          st\<lparr>vl_allInjuredNames := Set_add (vl_allInjuredNames st) name,
             vl_agreedOut := vl_agreedOut st + 1\<rparr>
        else if finalVerdict availability = PLAYING then
          st\<lparr>vl_agreedPlaying := vl_agreedPlaying st + 1\<rparr>
        else
          st\<lparr>vl_allInjuredNames := Set_add (vl_allInjuredNames st) name,
             vl_uncertain := vl_uncertain st + 1\<rparr>)"

text \<open>\<open>refreshInjuryCache\<close>. The results of the awaited fetches are parameters:
  \<open>espnInjuries\<close> (teams in insertion order), \<open>playersWithProps\<close>, and
  \<open>fetchTeamPlayerStats\<close>, which gives the players, goalies and team statistics of a
  team.\<close>

definition refreshInjuryCache ::
  "(string \<Rightarrow> string) \<Rightarrow> (string \<Rightarrow> RawPlayer list \<times> RawPlayer list \<times> TeamStats)
   \<Rightarrow> (string \<times> PlayerInjury list) list \<Rightarrow> string list \<Rightarrow> InjuryCache" where
  "refreshInjuryCache normalizePlayerName fetchTeamPlayerStats espnInjuries playersWithProps =
    (let espnInjured = buildEspnInjured normalizePlayerName espnInjuries;
         allPlayersToCheck = espnInjured;
         st = foldl
                (validationStep normalizePlayerName espnInjuries espnInjured playersWithProps)
                \<lparr>vl_playerAvailability = Map.empty, vl_allInjuredNames = [],
                 vl_agreedOut = 0, vl_agreedPlaying = 0, vl_uncertain = 0\<rparr>
                allPlayersToCheck;
         teamImpacts' =
           map (\<lambda>(teamAbbrev', teamInjuries).
                  let validatedInjuries =
                        filter (\<lambda>injury.
                                  Set_has (vl_allInjuredNames st)
                                    (normalizePlayerName (playerName injury)))
                          teamInjuries;
                      (players, goalies, teamStats) = fetchTeamPlayerStats teamAbbrev'
                  in (teamAbbrev',
                      calculateTeamImpact normalizePlayerName players goalies teamStats
                        teamAbbrev' validatedInjuries))
             espnInjuries
     in \<lparr>ic_injuries = espnInjuries,
         allInjuredNames = vl_allInjuredNames st,
         ic_espnInjured = espnInjured,
         ic_playersWithProps = playersWithProps,
         playerAvailability = vl_playerAvailability st,
         teamImpacts = teamImpacts',
         validationSummary =
           \<lparr>espnCount = Set_size espnInjured, propsCount = Set_size playersWithProps,
            agreedOut = vl_agreedOut st, agreedPlaying = vl_agreedPlaying st,
            uncertain = vl_uncertain st\<rparr>\<rparr>)"

section \<open>Example inputs\<close>

text \<open>A skater with season rate \<open>0.3\<close> and recent rate \<open>0.5\<close> goals per game, four shots
  per game in both windows and one minute of power-play time.\<close>

definition shooter :: PlayerStats where
  "shooter = \<lparr>ps_playerId = 1, ps_playerName = ''a b'', ps_teamAbbrev = ''EDM'',
     ps_position = ''C'', ps_gamesPlayed = 20,
     seasonGoals = 6, seasonAssists = 6, seasonPoints = 12, seasonShots = 80,
     seasonGoalsPerGame = 0.3, seasonAssistsPerGame = 0.3, seasonPointsPerGame = 0.6,
     seasonShotsPerGame = 4, seasonPPTimePerGame = 1,
     recentGoalsPerGame = 0.5, recentAssistsPerGame = 0.3, recentPointsPerGame = 0.6,
     recentShotsPerGame = 4, recentPPTimePerGame = 1, recentGames = 5, shootingPct = 0.075\<rparr>"

text \<open>A home game against a league-average goalie and a league-average defence.\<close>

definition neutralHome :: MatchupData where
  "neutralHome = \<lparr>oppTeamAbbrev = ''CGY'', oppGoalsAgainstPerGame = 3,
      oppGoalieSavePct = 0.905, isHome = True\<rparr>"

text \<open>A home game in which the defence modifier \<open>20 / 21\<close> cancels the home modifier
  \<open>1.05\<close>.\<close>

definition balancedHome :: MatchupData where
  "balancedHome = \<lparr>oppTeamAbbrev = ''CGY'', oppGoalsAgainstPerGame = 20 / 7,
      oppGoalieSavePct = 0.905, isHome = True\<rparr>"

text \<open>A game without goals, assists or points.\<close>

definition quietGame :: PlayerGameLog where
  "quietGame = \<lparr>gameId = 2025020001, gameDate = ''2025-10-08'', goals = 0, assists = 0,
     points = 0, shots = 1, toi = 600, ppToi = 0, plusMinus = 0, opponentAbbrev = ''CGY'',
     gl_isHome = True\<rparr>"

text \<open>An ESPN record of a player listed as day-to-day, and a stats source that knows no
  player.\<close>

definition mcdavidInjury :: PlayerInjury where
  "mcdavidInjury = \<lparr>playerId = ''3895074'', playerName = ''connor mcdavid'',
     team = ''Edmonton Oilers'', teamAbbrev = ''EDM'', position = ''C'', status = DAY_TO_DAY,
     injuryType = ''Undisclosed'', description = [], expectedReturn = None, gamesOut = None,
     updatedAt = ''2025-11-01T00:00:00.000Z''\<rparr>"

definition noTeamStats :: "string \<Rightarrow> RawPlayer list \<times> RawPlayer list \<times> TeamStats" where
  "noTeamStats t = ([], [], \<lparr>ts_points = lit 0, ts_goals = lit 0\<rparr>)"

text \<open>The club-stats entry of that player in a response that gives his points as
  \<open>1e999\<close>, a number that \<open>JSON.parse\<close> reads as \<open>Infinity\<close>.\<close>

definition mcdavidOverflowing :: RawPlayer where
  "mcdavidOverflowing =
    \<lparr>rp_playerId = ''8478402'', rp_firstName = ''connor'', rp_lastName = ''mcdavid'',
     rp_positionCode = ''C'', rp_gamesPlayed = lit 10, rp_points = PosInf, rp_goals = lit 5,
     rp_avgToi = lit 1300, rp_powerPlayPoints = lit 3, rp_savePctg = lit 0,
     rp_savePercentage = lit 0\<rparr>"

section \<open>The documented clamp bounds\<close>

text \<open>The bounds of the five clamped adjustments, as the comments and the specification
  give them.\<close>

definition withinClampBounds :: "TeamInjuryImpact \<Rightarrow> bool" where
  "withinClampBounds r =
    (- lit 0.3 \<le> totalWinProbAdjustment r \<and> totalWinProbAdjustment r \<le> lit 0.3
     \<and> - lit 0.15 \<le> powerPlayAdjustment r \<and> powerPlayAdjustment r \<le> lit 0.15
     \<and> - lit 0.1 \<le> penaltyKillAdjustment r \<and> penaltyKillAdjustment r \<le> lit 0.1
     \<and> - lit 0.5 \<le> expectedGoalsForAdjustment r \<and> expectedGoalsForAdjustment r \<le> lit 0.5
     \<and> - lit 0.5 \<le> expectedGoalsAgainstAdjustment r
     \<and> expectedGoalsAgainstAdjustment r \<le> lit 0.5)"

text \<open>What the clamp lines give for every input: each adjustment is NaN or within its
  bound.\<close>

definition withinOrNaN :: "real \<Rightarrow> double \<Rightarrow> bool" where
  "withinOrNaN b x = (x = NaN \<or> (- lit b \<le> x \<and> x \<le> lit b))"

definition clampedUnlessNaN :: "TeamInjuryImpact \<Rightarrow> bool" where
  "clampedUnlessNaN r =
    (withinOrNaN 0.3 (totalWinProbAdjustment r)
     \<and> withinOrNaN 0.15 (powerPlayAdjustment r)
     \<and> withinOrNaN 0.1 (penaltyKillAdjustment r)
     \<and> withinOrNaN 0.5 (expectedGoalsForAdjustment r)
     \<and> withinOrNaN 0.5 (expectedGoalsAgainstAdjustment r))"

text \<open>The three adjustments that the loop accumulates from the importance of the injured
  players are all NaN.\<close>

definition adjustmentsNaN :: "TeamInjuryImpact \<Rightarrow> bool" where
  "adjustmentsNaN r =
    (totalWinProbAdjustment r = NaN \<and> powerPlayAdjustment r = NaN
     \<and> penaltyKillAdjustment r = NaN)"

section \<open>The confidence score as the specification words it\<close>






section \<open>Properties of the compounding multiplier\<close>

text \<open>The multiplier never exceeds \<open>1.1\<close>, so the test \<open>compoundingMultiplier > 1.1\<close>
  that lets \<open>calculateTeamImpact\<close> report compounding injuries never holds, and the cap
  of \<open>2.0\<close> never applies.\<close>

lemma calculateCompoundingMultiplier_at_most:
  "calculateCompoundingMultiplier n m \<le> 1.1"
  by (simp add: calculateCompoundingMultiplier_def)

text \<open>
  Claim C1 states that the compounding multiplier is non-decreasing in the number of
  simultaneously injured players for a fixed man-games-lost value, and in particular that
  two injuries give at least the single-injury value. The code returns \<open>1\<close> for one
  injury and \<open>0.15\<close> for two: the step values \<open>0.15, 0.3, 0.5, 0.75\<close> overwrite the
  initial \<open>1.0\<close> instead of exceeding it. The following evaluation records the drop.
\<close>

theorem calculateCompoundingMultiplier_drops_at_two:
  "calculateCompoundingMultiplier 1 10 = 1
   \<and> calculateCompoundingMultiplier 2 10 = 0.15
   \<and> \<not> (calculateCompoundingMultiplier 1 10 \<le> calculateCompoundingMultiplier 2 10)"
  by (simp add: calculateCompoundingMultiplier_def)

section \<open>Properties of binary64 rounding\<close>

lemma roundHalfEven_error: "\<bar>of_int (roundHalfEven y) - y\<bar> \<le> 1 / 2"
  unfolding roundHalfEven_def Let_def by (auto simp: abs_le_iff)

lemma roundHalfEven_of_int: "roundHalfEven (of_int k) = k"
  unfolding roundHalfEven_def Let_def by simp

lemma roundHalfEven_nonneg: "0 \<le> y \<Longrightarrow> 0 \<le> roundHalfEven y"
  unfolding roundHalfEven_def Let_def by auto

lemma ulp_pos: "0 < ulp x"
  unfolding ulp_def by simp

lemma rnd_error: "\<bar>rnd x - x\<bar> \<le> ulp x / 2"
proof (cases "x = 0")
  case True
  then show ?thesis using ulp_pos [of x] by (simp add: rnd_def)
next
  case False
  have "rnd x - x = ulp x * (of_int (roundHalfEven (x / ulp x)) - x / ulp x)"
    using False ulp_pos [of x] by (simp add: rnd_def right_diff_distrib)
  then have "\<bar>rnd x - x\<bar> = ulp x * \<bar>of_int (roundHalfEven (x / ulp x)) - x / ulp x\<bar>"
    using ulp_pos [of x] by (simp add: abs_mult)
  also have "\<dots> \<le> ulp x * (1 / 2)"
    using roundHalfEven_error [of "x / ulp x"] ulp_pos [of x]
    by (intro mult_left_mono) auto
  finally show ?thesis by simp
qed

lemma rnd_nonneg: "0 \<le> x \<Longrightarrow> 0 \<le> rnd x"
  using ulp_pos [of x] roundHalfEven_nonneg [of "x / ulp x"]
  by (simp add: rnd_def)

lemma binade_normal:
  assumes "1 / 2 ^ 1022 \<le> \<bar>x\<bar>"
  shows "binade x = \<lfloor>log 2 \<bar>x\<bar>\<rfloor>"
proof -
  have "(0 :: real) < 1 / 2 ^ 1022" by simp
  then have p: "0 < \<bar>x\<bar>" using assms by linarith
  have e: "(1 :: real) / 2 ^ 1022 = 2 powr (- 1022)"
    by (simp add: powr_minus_divide)
  have "log 2 (2 powr (- 1022)) \<le> log 2 \<bar>x\<bar>"
    using assms p unfolding e by (subst log_le_cancel_iff) auto
  then have "- 1022 \<le> log 2 \<bar>x\<bar>" by simp
  then have "- 1022 \<le> \<lfloor>log 2 \<bar>x\<bar>\<rfloor>" by (simp add: le_floor_iff)
  then show ?thesis by (simp add: binade_def)
qed

lemma ulp_relative:
  assumes "1 / 2 ^ 1022 \<le> \<bar>x\<bar>"
  shows "ulp x \<le> \<bar>x\<bar> / 2 ^ 52"
proof -
  have "(0 :: real) < 1 / 2 ^ 1022" by simp
  then have p: "0 < \<bar>x\<bar>" using assms by linarith
  define k where "k = \<lfloor>log 2 \<bar>x\<bar>\<rfloor>"
  have le: "2 powr (of_int k) \<le> \<bar>x\<bar>"
    using p floor_log_eq_powr_iff [of "\<bar>x\<bar>" 2 k] by (simp add: k_def)
  have "ulp x = 2 powr (of_int k + (- 52))"
    using binade_normal [OF assms] by (simp add: ulp_def k_def)
  also have "\<dots> = 2 powr (of_int k) * 2 powr (- 52)"
    by (rule powr_add)
  also have "\<dots> = 2 powr (of_int k) / 2 ^ 52"
    by (simp add: powr_minus_divide)
  also have "\<dots> \<le> \<bar>x\<bar> / 2 ^ 52"
    using le by (simp add: divide_right_mono)
  finally show ?thesis .
qed

lemma ulp_below_one:
  assumes "x \<noteq> 0" and "\<bar>x\<bar> < 1"
  shows "ulp x \<le> 1 / 2 ^ 53"
proof -
  have "log 2 \<bar>x\<bar> < 0" using assms by simp
  then have "\<lfloor>log 2 \<bar>x\<bar>\<rfloor> \<le> - 1" by (simp add: floor_le_iff) 
  then have "binade x \<le> - 1" by (simp add: binade_def)
  then have "of_int (binade x) - 52 \<le> (- 53 :: real)" by linarith
  then have "ulp x \<le> 2 powr (- 53)"
    unfolding ulp_def by (subst powr_le_cancel_iff) auto
  then show ?thesis by (simp add: powr_minus_divide)
qed

lemma rnd_relative:
  assumes "1 / 2 ^ 1022 \<le> \<bar>x\<bar>"
  shows "\<bar>rnd x - x\<bar> \<le> \<bar>x\<bar> / 2 ^ 53"
  using rnd_error [of x] ulp_relative [OF assms] by simp

lemma rnd_below_one:
  assumes "0 \<le> q" and "q < 1 - 1 / 2 ^ 54"
  shows "0 \<le> rnd q \<and> rnd q < 1"
proof (cases "q = 0")
  case True
  then show ?thesis by (simp add: rnd_def)
next
  case False
  have "(0 :: real) < 1 / 2 ^ 54" by simp
  then have "\<bar>q\<bar> < 1" using assms by linarith
  then have "ulp q \<le> 1 / 2 ^ 53" using False by (rule ulp_below_one [rotated])
  then have "\<bar>rnd q - q\<bar> \<le> 1 / 2 ^ 54" using rnd_error [of q] by simp
  then have "rnd q < 1" using assms(2) by linarith
  then show ?thesis using rnd_nonneg [OF assms(1)] by simp
qed


lemma binade_eval:
  assumes "2 ^ n \<le> \<bar>x\<bar>" and "\<bar>x\<bar> < 2 ^ Suc n"
  shows "binade x = int n"
proof -
  have "(0 :: real) < 2 ^ n" by simp
  then have p: "0 < \<bar>x\<bar>" using assms(1) by linarith
  have a: "2 powr (of_int (int n)) = (2 :: real) ^ n"
    using powr_realpow [of 2 n] by simp
  have b: "2 powr (of_int (int n + 1)) = (2 :: real) ^ Suc n"
    using powr_realpow [of 2 "Suc n"] by (simp add: add.commute)
  have "2 powr (of_int (int n)) \<le> \<bar>x\<bar> \<and> \<bar>x\<bar> < 2 powr (of_int (int n + 1))"
    unfolding a b using assms by simp
  then have "\<lfloor>log 2 \<bar>x\<bar>\<rfloor> = int n"
    using p by (subst floor_log_eq_powr_iff) auto
  then show ?thesis by (simp add: binade_def)
qed

lemma fl_zero: "fl 0 = Finite 0"
  by (simp add: fl_def rnd_def MAX_VALUE_def)

lemma fl_hundred: "fl 100 = Finite 100"
proof -
  have b: "binade 100 = int 6" by (rule binade_eval) simp_all
  have u: "ulp 100 = 1 / 2 ^ 46" unfolding ulp_def b by (simp add: powr_minus_divide)
  have "rnd 100 = 100" unfolding rnd_def u by (simp add: roundHalfEven_def)
  then show ?thesis by (simp add: fl_def MAX_VALUE_def)
qed

lemma fl_one: "fl 1 = Finite 1"
proof -
  have b: "binade 1 = int 0" by (rule binade_eval) simp_all
  have u: "ulp 1 = 1 / 2 ^ 52" unfolding ulp_def b by (simp add: powr_minus_divide)
  have "rnd 1 = 1" unfolding rnd_def u by (simp add: roundHalfEven_def)
  then show ?thesis by (simp add: fl_def MAX_VALUE_def)
qed

lemma fl_1e20_plus_100: "fl (10 ^ 20 + 100) = Finite (10 ^ 20)"
proof -
  have b: "binade (10 ^ 20 + 100) = int 66" by (rule binade_eval) simp_all
  have u: "ulp (10 ^ 20 + 100) = 2 ^ 14" unfolding ulp_def b by simp
  have "rnd (10 ^ 20 + 100) = 10 ^ 20" unfolding rnd_def u by (simp add: roundHalfEven_def)
  then show ?thesis by (simp add: fl_def MAX_VALUE_def)
qed

lemma fl_tiny_plus_100: "fl (1 / 2 ^ 50 + 100) = Finite 100"
proof -
  have b: "binade (1 / 2 ^ 50 + 100) = int 6" by (rule binade_eval) simp_all
  have u: "ulp (1 / 2 ^ 50 + 100) = 1 / 2 ^ 46" unfolding ulp_def b by (simp add: powr_minus_divide)
  have "rnd (1 / 2 ^ 50 + 100) = 100" unfolding rnd_def u by (simp add: roundHalfEven_def)
  then show ?thesis by (simp add: fl_def MAX_VALUE_def)
qed

lemma fl_minus_1e20: "fl (- (10 ^ 20)) = Finite (- (10 ^ 20))"
proof -
  have b: "binade (- (10 ^ 20)) = int 66" by (rule binade_eval) simp_all
  have u: "ulp (- (10 ^ 20)) = 2 ^ 14" unfolding ulp_def b by simp
  have "rnd (- (10 ^ 20)) = - (10 ^ 20)" unfolding rnd_def u by (simp add: roundHalfEven_def)
  then show ?thesis by (simp add: fl_def MAX_VALUE_def)
qed

lemma MAX_VALUE_ge_one: "1 \<le> MAX_VALUE"
  by (simp add: MAX_VALUE_def)

text \<open>A sum of at least \<open>100\<close> rounds to a finite value that is smaller by at most the
  relative error \<open>1 / 2 ^ 53\<close>.\<close>

lemma fl_sum_finite:
  assumes "100 \<le> s" and "s \<le> 2 ^ 1023 + 100"
  shows "\<exists>d. fl s = Finite d \<and> s * (1 - 1 / 2 ^ 53) \<le> d"
proof -
  have "1 / 2 ^ 1022 \<le> \<bar>s\<bar>" using assms(1) by simp
  then have "\<bar>rnd s - s\<bar> \<le> \<bar>s\<bar> / 2 ^ 53" by (rule rnd_relative)
  then have e: "\<bar>rnd s - s\<bar> \<le> s / 2 ^ 53" using assms(1) by simp
  have e1: "s - s / 2 ^ 53 \<le> rnd s" and e2: "rnd s \<le> s + s / 2 ^ 53"
    using e by linarith+
  have lo: "s * (1 - 1 / 2 ^ 53) \<le> rnd s" using e1 by (simp add: right_diff_distrib)
  have "rnd s \<le> s * (1 + 1 / 2 ^ 53)" using e2 by (simp add: distrib_left)
  also have "\<dots> \<le> (2 ^ 1023 + 100) * (1 + 1 / 2 ^ 53)"
    using assms(2) by (intro mult_right_mono) simp_all
  also have "\<dots> \<le> MAX_VALUE" by (simp add: MAX_VALUE_def)
  finally have hi: "rnd s \<le> MAX_VALUE" .
  have "0 \<le> s * (1 - 1 / 2 ^ 53)" using assms(1) by simp
  then have "0 \<le> rnd s" using lo by linarith
  then have "\<not> rnd s < - MAX_VALUE" using MAX_VALUE_ge_one by linarith
  then have "fl s = Finite (rnd s)" using hi by (simp add: fl_def)
  then show ?thesis using lo by blast
qed

text \<open>A quotient whose exact value stays \<open>1 / 2 ^ 54\<close> below \<open>1\<close> rounds to a value below
  \<open>1\<close>.\<close>

lemma fl_quotient_below_one:
  assumes "0 \<le> n" and "0 < d" and "n < d * (1 - 1 / 2 ^ 54)"
  shows "\<exists>p. Finite n / Finite d = Finite p \<and> 0 \<le> p \<and> p < 1"
proof -
  have q0: "0 \<le> n / d" using assms(1,2) by simp
  have q1: "n / d < 1 - 1 / 2 ^ 54" using assms(2,3) by (simp add: pos_divide_less_eq)
  have r: "0 \<le> rnd (n / d) \<and> rnd (n / d) < 1" using q0 q1 by (rule rnd_below_one)
  then have "fl (n / d) = Finite (rnd (n / d))"
    using MAX_VALUE_ge_one by (simp add: fl_def)
  then show ?thesis using r assms(2) by simp
qed

section \<open>Properties of the odds conversion\<close>

text \<open>
  Claim C10 states that for every numeric American-odds input \<open>americanToImpliedProb\<close>
  returns a value in \<open>[0, 1)\<close>, never \<open>1\<close> or more. On binary64 numbers this fails for
  odds of large magnitude: \<open>-1e20\<close> is a binary64 value, the sum \<open>1e20 + 100\<close> rounds
  back to \<open>1e20\<close>, and the quotient is exactly \<open>1\<close>. The same happens for tiny positive
  odds (\<open>2 ^ -50 + 100\<close> rounds to \<open>100\<close>), and the inputs NaN and \<open>-Infinity\<close> give
  NaN, which is in no interval.
\<close>

theorem americanToImpliedProb_binary64_reaches_one_counterexample:
  "lit (- (10 ^ 20)) = Finite (- (10 ^ 20))
   \<and> americanToImpliedProb_binary64 (Finite (- (10 ^ 20))) = Finite 1
   \<and> \<not> americanToImpliedProb_binary64 (Finite (- (10 ^ 20))) < Finite 1
   \<and> americanToImpliedProb_binary64 (Finite (1 / 2 ^ 50)) = Finite 1
   \<and> americanToImpliedProb_binary64 NaN = NaN
   \<and> americanToImpliedProb_binary64 NegInf = NaN"
  using fl_1e20_plus_100 fl_tiny_plus_100 fl_minus_1e20
  by (simp add: americanToImpliedProb_binary64_def lit_def fl_zero fl_hundred fl_one)

text \<open>
  Claim C10, amended: for every finite American-odds input that is \<open>0\<close>, positive between
  \<open>2 ^ -45\<close> and \<open>2 ^ 1023\<close>, or negative of magnitude at most \<open>2 ^ 58\<close> (every whole
  number of magnitude up to \<open>2 ^ 53\<close> is among them), \<open>americanToImpliedProb\<close> returns a
  finite value in \<open>[0, 1)\<close>: odds of exactly \<open>0\<close> give \<open>0\<close>, positive odds the rounded
  \<open>100 / (odds + 100)\<close>, negative odds the rounded \<open>|odds| / (|odds| + 100)\<close>; the
  denominator is at least \<open>100\<close> before rounding and positive after it.
\<close>

theorem americanToImpliedProb_binary64_range:
  assumes "x = 0 \<or> (1 / 2 ^ 45 \<le> x \<and> x \<le> 2 ^ 1023) \<or> (- (2 ^ 58) \<le> x \<and> x < 0)"
  shows "(x = 0 \<longrightarrow> americanToImpliedProb_binary64 (Finite x) = Finite 0)
       \<and> (0 < x \<longrightarrow>
            (\<exists>d. Finite x + lit 100 = Finite d \<and> 0 < d
               \<and> americanToImpliedProb_binary64 (Finite x) = lit 100 / Finite d))
       \<and> (x < 0 \<longrightarrow>
            (\<exists>d. \<bar>Finite x\<bar> + lit 100 = Finite d \<and> 0 < d
               \<and> americanToImpliedProb_binary64 (Finite x) = \<bar>Finite x\<bar> / Finite d))
       \<and> (\<exists>p. americanToImpliedProb_binary64 (Finite x) = Finite p \<and> 0 \<le> p \<and> p < 1)"
proof -
  consider (zero) "x = 0" | (pos) "1 / 2 ^ 45 \<le> x" "x \<le> 2 ^ 1023"
    | (neg) "- (2 ^ 58) \<le> x" "x < 0"
    using assms by blast
  then show ?thesis
  proof cases
    case zero
    then show ?thesis by (simp add: americanToImpliedProb_binary64_def lit_def fl_zero)
  next
    case pos
    have "(0 :: real) < 1 / 2 ^ 45" by simp
    then have xp: "0 < x" using pos(1) by linarith
    obtain d where d: "fl (x + 100) = Finite d" "(x + 100) * (1 - 1 / 2 ^ 53) \<le> d"
      using fl_sum_finite [of "x + 100"] xp pos(2) by auto
    have "(100 + 1 / 2 ^ 45) * (1 - 1 / 2 ^ 53) \<le> (x + 100) * (1 - 1 / 2 ^ 53)"
      using pos(1) by (intro mult_right_mono) simp_all
    then have lo: "(100 + 1 / 2 ^ 45) * (1 - 1 / 2 ^ 53) \<le> d" using d(2) by linarith
    have "(100 :: real) < ((100 + 1 / 2 ^ 45) * (1 - 1 / 2 ^ 53)) * (1 - 1 / 2 ^ 54)" by simp
    also have "\<dots> \<le> d * (1 - 1 / 2 ^ 54)"
      using lo by (intro mult_right_mono) simp_all
    finally have b: "100 < d * (1 - 1 / 2 ^ 54)" .
    have dp: "0 < d" using lo by simp
    obtain p where "Finite 100 / Finite d = Finite p" "0 \<le> p" "p < 1"
      using fl_quotient_below_one [of 100 d] dp b by auto
    then show ?thesis
      using xp d(1) dp
      by (simp add: americanToImpliedProb_binary64_def lit_def fl_zero fl_hundred)
  next
    case neg
    define a where "a = \<bar>x\<bar>"
    have a: "0 < a" "a \<le> 2 ^ 58" using neg by (simp_all add: a_def)
    obtain d where d: "fl (a + 100) = Finite d" "(a + 100) * (1 - 1 / 2 ^ 53) \<le> d"
      using fl_sum_finite [of "a + 100"] a by auto
    have "0 < (a + 100) * (1 - 1 / 2 ^ 53)" using a(1) by (intro mult_pos_pos) simp_all
    then have dp: "0 < d" using d(2) by linarith
    have "a < ((a + 100) * (1 - 1 / 2 ^ 53)) * (1 - 1 / 2 ^ 54)"
      using a by (simp add: algebra_simps)
    also have "\<dots> \<le> d * (1 - 1 / 2 ^ 54)"
      using d(2) by (intro mult_right_mono) simp_all
    finally have b: "a < d * (1 - 1 / 2 ^ 54)" .
    obtain p where "Finite a / Finite d = Finite p" "0 \<le> p" "p < 1"
      using fl_quotient_below_one [of a d] dp b a(1) by auto
    then show ?thesis
      using neg(2) d(1) dp
      by (simp add: americanToImpliedProb_binary64_def lit_def fl_zero fl_hundred a_def)
  qed
qed

theorem americanToImpliedProb_binary64_range_witness:
  "americanToImpliedProb_binary64 (Finite 0) = Finite 0
   \<and> (\<exists>p. americanToImpliedProb_binary64 (Finite 150) = Finite p \<and> 0 \<le> p \<and> p < 1)
   \<and> (\<exists>p. americanToImpliedProb_binary64 (Finite (- 150)) = Finite p \<and> 0 \<le> p \<and> p < 1)"
  using americanToImpliedProb_binary64_range [of 0] americanToImpliedProb_binary64_range [of 150]
    americanToImpliedProb_binary64_range [of "- 150"]
  by simp

section \<open>Properties of the bet classification\<close>

lemma classifyBet_no_odds:
  assumes "bo = None \<or> bo = Some 0"
  shows "classification (classifyBet p bo l t c g) =
    (if p \<ge> MIN_PROB_FOR_LEAN \<and> c \<ge> MIN_CONFIDENCE_VALUE
        \<and> g \<ge> minGamesPlayed (PROP_THRESHOLDS t) then lean else none)"
  using assms by (simp add: classifyBet_def Let_def)

lemma classifyBet_with_odds:
  assumes "b \<noteq> 0"
  shows "classification (classifyBet p (Some b) l t c g) =
    (let e = p - americanToImpliedProb b; th = PROP_THRESHOLDS t;
         s = (g \<ge> minGamesPlayed th) in
     if e \<ge> minEdgeBest th \<and> c \<ge> MIN_CONFIDENCE_BEST \<and> s then best_bet
     else if e \<ge> minEdgeStrong th \<and> c \<ge> MIN_CONFIDENCE_STRONG \<and> s then strong_value
     else if e \<ge> minEdgeValue th \<and> c \<ge> MIN_CONFIDENCE_VALUE \<and> s then value_bet
     else if p \<ge> MIN_PROB_FOR_BEST \<and> c \<ge> MIN_CONFIDENCE_VALUE \<and> e > 0 then lean
     else none)"
  using assms unfolding classifyBet_def Let_def
  by (simp add: if_distrib [of classification] if_distrib [of edge]
      split del: if_split cong: if_cong)

lemma classifyBet_edge:
  assumes "b \<noteq> 0"
  shows "edge (classifyBet p (Some b) l t c g) = p - americanToImpliedProb b"
  using assms unfolding classifyBet_def Let_def
  by (simp add: if_distrib [of classification] if_distrib [of edge]
      split del: if_split cong: if_cong)

lemma tier_chain_mono:
  fixes e1 e2 :: real
  assumes "e1 < e2"
  shows "priority
      (if B \<le> e2 \<and> cb \<and> s then best_bet
       else if S \<le> e2 \<and> cs \<and> s then strong_value
       else if V \<le> e2 \<and> cv \<and> s then value_bet
       else if hp \<and> cv \<and> 0 < e2 then lean else none)
    \<le> priority
      (if B \<le> e1 \<and> cb \<and> s then best_bet
       else if S \<le> e1 \<and> cs \<and> s then strong_value
       else if V \<le> e1 \<and> cv \<and> s then value_bet
       else if hp \<and> cv \<and> 0 < e1 then lean else none)"
  using assms by auto

text \<open>
  Claim C6: for fixed model probability, confidence, games played and prop type,
  \<open>classifyBet\<close> is monotonic in edge: when a quote with a larger edge replaces a quote
  with a smaller one, the tier does not get worse in the order
  \<open>best_bet > strong_value > value > lean > none\<close> (the priority number of
  \<open>sortBetsByQuality\<close> does not grow). The edge exists when a quote is given, that is,
  when \<open>bookOdds\<close> is neither \<open>null\<close> nor \<open>0\<close>.
\<close>

theorem classifyBet_monotone_in_edge:
  assumes "b \<noteq> 0" and "b' \<noteq> 0"
    and "edge (classifyBet p (Some b) l t c g) < edge (classifyBet p (Some b') l t c g)"
  shows "priority (classification (classifyBet p (Some b') l t c g))
         \<le> priority (classification (classifyBet p (Some b) l t c g))"
proof -
  have e: "p - americanToImpliedProb b < p - americanToImpliedProb b'"
    using assms by (simp add: classifyBet_edge)
  show ?thesis
    unfolding classifyBet_with_odds [OF assms(1)] classifyBet_with_odds [OF assms(2)] Let_def
    by (rule tier_chain_mono [OF e])
qed

theorem classifyBet_monotone_in_edge_witness:
  "edge (classifyBet 0.6 (Some (- 110)) 0.5 bet_points 0.8 40)
     < edge (classifyBet 0.6 (Some 100) 0.5 bet_points 0.8 40)
   \<and> classification (classifyBet 0.6 (Some (- 110)) 0.5 bet_points 0.8 40) = strong_value
   \<and> classification (classifyBet 0.6 (Some 100) 0.5 bet_points 0.8 40) = best_bet
   \<and> priority (classification (classifyBet 0.6 (Some 100) 0.5 bet_points 0.8 40))
       \<le> priority (classification (classifyBet 0.6 (Some (- 110)) 0.5 bet_points 0.8 40))"
proof -
  have e: "edge (classifyBet 0.6 (Some (- 110)) 0.5 bet_points 0.8 40)
     < edge (classifyBet 0.6 (Some 100) 0.5 bet_points 0.8 40)"
    by (simp add: classifyBet_edge americanToImpliedProb_def)
  have s: "classification (classifyBet 0.6 (Some (- 110)) 0.5 bet_points 0.8 40) = strong_value"
    by (simp add: classifyBet_with_odds americanToImpliedProb_def Let_def
        MIN_CONFIDENCE_BEST_def MIN_CONFIDENCE_STRONG_def)
  have b: "classification (classifyBet 0.6 (Some 100) 0.5 bet_points 0.8 40) = best_bet"
    by (simp add: classifyBet_with_odds americanToImpliedProb_def Let_def
        MIN_CONFIDENCE_BEST_def)
  have "priority (classification (classifyBet 0.6 (Some 100) 0.5 bet_points 0.8 40))
       \<le> priority (classification (classifyBet 0.6 (Some (- 110)) 0.5 bet_points 0.8 40))"
    by (rule classifyBet_monotone_in_edge [OF _ _ e]) simp_all
  with e s b show ?thesis by simp
qed

text \<open>
  Claim C7 states that without book odds the only classification other than \<open>none\<close> is
  \<open>lean\<close>, gated on probability and confidence alone (both at least \<open>0.50\<close>). The first
  half holds; the gate has a third conjunct, the sample-size requirement of the prop type.
  With probability \<open>0.6\<close> and confidence \<open>0.6\<close> but only \<open>10\<close> games for a goalscorer prop
  (minimum \<open>30\<close>) the result is \<open>none\<close>.
\<close>

theorem classifyBet_no_odds_sample_gate_counterexample:
  "(0.6 :: real) \<ge> 0.50
   \<and> classification (classifyBet 0.6 None 0.5 bet_goalscorer 0.6 10) = none"
  by (simp add: classifyBet_no_odds)

text \<open>
  Claim C7, amended: without book odds (\<open>null\<close> or \<open>0\<close>) the classification is \<open>lean\<close> or
  \<open>none\<close>, and it is \<open>lean\<close> exactly when the probability is at least \<open>0.50\<close>, the
  confidence is at least \<open>0.50\<close> and the games played reach the minimum of the prop type.
\<close>

theorem classifyBet_no_odds_lean_only:
  assumes "bo = None \<or> bo = Some 0"
  shows "(classification (classifyBet p bo l t c g) = lean
          \<or> classification (classifyBet p bo l t c g) = none)
       \<and> (classification (classifyBet p bo l t c g) = lean
          \<longleftrightarrow> p \<ge> 0.50 \<and> c \<ge> 0.50 \<and> g \<ge> minGamesPlayed (PROP_THRESHOLDS t))"
  using assms by (simp add: classifyBet_no_odds MIN_PROB_FOR_LEAN_def MIN_CONFIDENCE_VALUE_def)

theorem classifyBet_no_odds_lean_only_witness:
  "classification (classifyBet 0.6 None 0.5 bet_goalscorer 0.6 30) = lean
   \<and> classification (classifyBet 0.6 (Some 0) 0.5 bet_goalscorer 0.4 30) = none"
  using classifyBet_no_odds_lean_only [of None "0.6" "0.5" bet_goalscorer "0.6" 30]
    classifyBet_no_odds_lean_only [of "Some 0" "0.6" "0.5" bet_goalscorer "0.4" 30]
  by auto


section \<open>Properties of the goal expectation\<close>

lemma calculateExpectedGoals_factors:
  "factors (calculateExpectedGoals p m) =
    \<lparr>baseGoalsPerGame = 0.6 * recentGoalsPerGame p + 0.4 * seasonGoalsPerGame p,
     recentFormMultiplier =
       (if seasonShotsPerGame p > 0 \<and> recentShotsPerGame p > 0
        then 0.7 + 0.3 * min 1.3 (max 0.7 (recentShotsPerGame p / seasonShotsPerGame p))
        else 1),
     ppBoost =
       (if (recentPPTimePerGame p + seasonPPTimePerGame p) / 2 \<ge> 4 then 1.2
        else if (recentPPTimePerGame p + seasonPPTimePerGame p) / 2 \<ge> 2.5 then 1.1 else 1),
     goalieAdjustment = max 0.8 (min 1.25 (1 + (0.905 - oppGoalieSavePct m) * 3)),
     homeAwayAdjustment = (if isHome m then 1.05 else 0.95),
     defenseAdjustment =
       (if oppGoalsAgainstPerGame m > 0
        then max 0.85 (min 1.2 (oppGoalsAgainstPerGame m / 3)) else 1)\<rparr>"
  unfolding calculateExpectedGoals_def Let_def RECENT_WEIGHT_def SEASON_WEIGHT_def
    LEAGUE_AVG_SAVE_PCT_def LEAGUE_AVG_GOALS_AGAINST_def
  by (simp split del: if_split cong: if_cong)

lemma calculateExpectedGoals_expected:
  "expected (calculateExpectedGoals p m) =
     max 0 (baseGoalsPerGame (factors (calculateExpectedGoals p m))
      * recentFormMultiplier (factors (calculateExpectedGoals p m))
      * ppBoost (factors (calculateExpectedGoals p m))
      * goalieAdjustment (factors (calculateExpectedGoals p m))
      * homeAwayAdjustment (factors (calculateExpectedGoals p m))
      * defenseAdjustment (factors (calculateExpectedGoals p m)))"
  unfolding calculateExpectedGoals_def Let_def
  by (simp only: ExpectedResult.simps Factors.simps)

lemma calculateExpectedGoals_modifiers_positive:
  "0 < recentFormMultiplier (factors (calculateExpectedGoals p m))
     * ppBoost (factors (calculateExpectedGoals p m))
     * goalieAdjustment (factors (calculateExpectedGoals p m))
     * homeAwayAdjustment (factors (calculateExpectedGoals p m))
     * defenseAdjustment (factors (calculateExpectedGoals p m))"
proof -
  have "0 < recentFormMultiplier (factors (calculateExpectedGoals p m))"
    by (simp add: calculateExpectedGoals_factors max_def min_def)
  moreover have "0 < ppBoost (factors (calculateExpectedGoals p m))"
    by (simp add: calculateExpectedGoals_factors)
  moreover have "0 < goalieAdjustment (factors (calculateExpectedGoals p m))"
    by (simp add: calculateExpectedGoals_factors less_max_iff_disj)
  moreover have "0 < homeAwayAdjustment (factors (calculateExpectedGoals p m))"
    by (simp add: calculateExpectedGoals_factors)
  moreover have "0 < defenseAdjustment (factors (calculateExpectedGoals p m))"
    by (simp add: calculateExpectedGoals_factors less_max_iff_disj)
  ultimately show ?thesis by simp
qed

lemma shooter_values:
  "recentFormMultiplier (factors (calculateExpectedGoals shooter balancedHome)) = 1"
  "ppBoost (factors (calculateExpectedGoals shooter balancedHome)) = 1"
  "goalieAdjustment (factors (calculateExpectedGoals shooter balancedHome)) = 1"
  "homeAwayAdjustment (factors (calculateExpectedGoals shooter balancedHome)) = 1.05"
  "defenseAdjustment (factors (calculateExpectedGoals shooter balancedHome)) = 20 / 21"
  by (simp_all add: calculateExpectedGoals_factors shooter_def balancedHome_def)

lemma exp_minus_042_bounds: "0.33 < 1 - exp (- (0.42 :: real))" "1 - exp (- (0.42 :: real)) < 0.38"
proof -
  have l: "1 + 0.42 + (0.42 :: real)\<^sup>2 / 2 \<le> exp 0.42"
    by (rule exp_lower_Taylor_quadratic) simp
  have u: "exp (0.42 :: real) \<le> 1 + 0.42 + 0.42\<^sup>2"
    by (rule exp_bound) simp_all
  have e: "exp (- (0.42 :: real)) = 1 / exp 0.42"
    by (simp add: exp_minus field_simps)
  have p: "0 < exp (0.42 :: real)" by simp
  from l have "1 / exp (0.42 :: real) \<le> 1 / (1 + 0.42 + (0.42)\<^sup>2 / 2)"
    by (intro divide_left_mono) (simp_all add: power2_eq_square)
  then show "0.33 < 1 - exp (- (0.42 :: real))" unfolding e by (simp add: power2_eq_square)
  from u have "1 / (1 + 0.42 + (0.42 :: real)\<^sup>2) \<le> 1 / exp 0.42"
    by (intro divide_left_mono) (simp_all add: power2_eq_square)
  then show "1 - exp (- (0.42 :: real)) < 0.38" unfolding e by (simp add: power2_eq_square)
qed


text \<open>
  Claim C2 states that a player with recent rate \<open>0.5\<close> and season rate \<open>0.3\<close> goals per
  game, blended \<open>60/40\<close>, has base rate \<open>0.38\<close>, and with all modifiers neutral expected
  value \<open>0.38\<close> and probability \<open>1 - exp (- 0.38)\<close>. The blend of the code is
  \<open>0.6 * 0.5 + 0.4 * 0.3 = 0.42\<close> (the value \<open>0.38\<close> belongs to the swapped weights).
\<close>

theorem calculateExpectedGoals_base_rate_counterexample:
  "baseGoalsPerGame (factors (calculateExpectedGoals shooter neutralHome)) = 0.42
   \<and> baseGoalsPerGame (factors (calculateExpectedGoals shooter neutralHome)) \<noteq> 0.38"
  by (simp add: calculateExpectedGoals_factors shooter_def)

text \<open>
  Claim C2, amended: for a player with recent rate \<open>0.5\<close> and season rate \<open>0.3\<close> the base
  rate is \<open>0.42\<close>; the expected value is \<open>0.42\<close> times the product of the five modifiers,
  of which the location modifier is \<open>1.05\<close> or \<open>0.95\<close> and never neutral; the probability
  of at least one goal at the default line is \<open>1 - exp (- expected)\<close>; and when the modifiers
  multiply to \<open>1\<close> the expected value is \<open>0.42\<close> and the probability is
  \<open>1 - exp (- 0.42)\<close>, which is above \<open>0.33\<close>.
\<close>

theorem calculateExpectedGoals_blend_scenario:
  assumes "recentGoalsPerGame p = 0.5" and "seasonGoalsPerGame p = 0.3"
  shows "let r = calculateExpectedGoals p m; f = factors r;
             modifiers = recentFormMultiplier f * ppBoost f * goalieAdjustment f
                          * homeAwayAdjustment f * defenseAdjustment f
         in baseGoalsPerGame f = 0.42
            \<and> expected r = 0.42 * modifiers
            \<and> homeAwayAdjustment f = (if isHome m then 1.05 else 0.95)
            \<and> calculateProbability (expected r) (DEFAULT_LINES Goalscorer) Goalscorer
                = 1 - exp (- expected r)
            \<and> (modifiers = 1 \<longrightarrow>
                 expected r = 0.42
                 \<and> calculateProbability (expected r) (DEFAULT_LINES Goalscorer) Goalscorer
                     = 1 - exp (- 0.42)
                 \<and> 0.33 < 1 - exp (- (0.42 :: real)))"
proof -
  define f where "f = factors (calculateExpectedGoals p m)"
  define k where "k = recentFormMultiplier f * ppBoost f * goalieAdjustment f
                          * homeAwayAdjustment f * defenseAdjustment f"
  have b: "baseGoalsPerGame f = 0.42"
    unfolding f_def using assms by (simp add: calculateExpectedGoals_factors)
  have kpos: "0 < k"
    unfolding k_def f_def by (rule calculateExpectedGoals_modifiers_positive)
  have "expected (calculateExpectedGoals p m) = max 0 (baseGoalsPerGame f * k)"
    unfolding k_def f_def by (simp add: calculateExpectedGoals_expected mult.assoc)
  with b kpos have e: "expected (calculateExpectedGoals p m) = 0.42 * k"
    by simp
  have h: "homeAwayAdjustment f = (if isHome m then 1.05 else 0.95)"
    unfolding f_def by (simp add: calculateExpectedGoals_factors)
  have pr: "calculateProbability (expected (calculateExpectedGoals p m))
      (DEFAULT_LINES Goalscorer) Goalscorer = 1 - exp (- expected (calculateExpectedGoals p m))"
    by (simp add: calculateProbability_def)
  show ?thesis
    unfolding Let_def f_def [symmetric] k_def [symmetric]
    using b e h pr exp_minus_042_bounds(1) by simp
qed

theorem calculateExpectedGoals_blend_scenario_witness:
  "recentGoalsPerGame shooter = 0.5 \<and> seasonGoalsPerGame shooter = 0.3
   \<and> expected (calculateExpectedGoals shooter balancedHome) = 0.42
   \<and> calculateProbability (expected (calculateExpectedGoals shooter balancedHome)) 0.5 Goalscorer
       = 1 - exp (- 0.42)"
proof -
  have a: "recentGoalsPerGame shooter = 0.5" and b: "seasonGoalsPerGame shooter = 0.3"
    by (simp_all add: shooter_def)
  show ?thesis
    using calculateExpectedGoals_blend_scenario [OF a b, of balancedHome] a b
    by (simp add: Let_def shooter_values)
qed


section \<open>Properties of the player forecast\<close>

lemma calculatePlayerStats_None_iff:
  "calculatePlayerStats pid pname tm pos gameLogs = None \<longleftrightarrow> length gameLogs < 15"
  by (simp add: calculatePlayerStats_def Let_def MIN_GAMES_FOR_PREDICTION_def)

lemma calculatePlayerStats_season_rates:
  assumes "calculatePlayerStats pid pname tm pos gameLogs = Some ps"
  shows "ps_gamesPlayed ps = real (length gameLogs)"
    and "seasonGoalsPerGame ps = foldl (\<lambda>sum g. sum + goals g) 0 gameLogs / real (length gameLogs)"
    and "seasonShotsPerGame ps = foldl (\<lambda>sum g. sum + shots g) 0 gameLogs / real (length gameLogs)"
    and "seasonAssistsPerGame ps = foldl (\<lambda>sum g. sum + assists g) 0 gameLogs / real (length gameLogs)"
    and "seasonPointsPerGame ps = foldl (\<lambda>sum g. sum + points g) 0 gameLogs / real (length gameLogs)"
  using assms by (auto simp add: calculatePlayerStats_def Let_def split: if_splits)

text \<open>
  Claim C8: for every player whose game-log sample is below the minimum of \<open>15\<close> games, or
  whose season per-game rate for the requested prop type (the field of the computed
  \<open>PlayerStats\<close> selected by the prop type, a season total divided by the number of games)
  is below the quality threshold of that prop type, \<open>predictPlayerProp\<close> returns \<open>null\<close>:
  the player is left out rather than given a default forecast.
\<close>

theorem predictPlayerProp_excludes_thin_players:
  assumes "length gameLogs < 15
     \<or> (\<exists>ps. calculatePlayerStats pid pname tm pos gameLogs = Some ps
            \<and> production ps propType < QUALITY_THRESHOLDS propType)"
  shows "predictPlayerProp pid pname tm pos opp home propType gameLogs oppDefense = None"
  using assms
proof
  assume "length gameLogs < 15"
  then have "calculatePlayerStats pid pname tm pos gameLogs = None"
    by (simp add: calculatePlayerStats_None_iff)
  then show ?thesis by (simp add: predictPlayerProp_def)
next
  assume "\<exists>ps. calculatePlayerStats pid pname tm pos gameLogs = Some ps
            \<and> production ps propType < QUALITY_THRESHOLDS propType"
  then obtain ps where "calculatePlayerStats pid pname tm pos gameLogs = Some ps"
    and "production ps propType < QUALITY_THRESHOLDS propType" by blast
  then show ?thesis by (simp add: predictPlayerProp_def Let_def)
qed

lemma foldl_add_replicate:
  "foldl (\<lambda>sum g. sum + f g) a (replicate n x) = a + real n * (f x :: real)"
  by (induction n arbitrary: a) (simp_all add: algebra_simps)

lemma quiet_stats:
  "\<exists>ps. calculatePlayerStats 1 ''a b'' ''EDM'' ''C'' (replicate 15 quietGame) = Some ps
      \<and> production ps Goalscorer < QUALITY_THRESHOLDS Goalscorer"
  by (simp add: calculatePlayerStats_def Let_def MIN_GAMES_FOR_PREDICTION_def
      foldl_add_replicate quietGame_def)

theorem predictPlayerProp_excludes_thin_players_witness:
  "predictPlayerProp 1 ''a b'' ''EDM'' ''C'' ''CGY'' True Goalscorer (replicate 14 quietGame) None = None
   \<and> predictPlayerProp 1 ''a b'' ''EDM'' ''C'' ''CGY'' True Goalscorer (replicate 15 quietGame) None = None"
  using predictPlayerProp_excludes_thin_players [of "replicate 14 quietGame" 1 "''a b''" "''EDM''" "''C''" Goalscorer "''CGY''" True None]
    predictPlayerProp_excludes_thin_players [of "replicate 15 quietGame" 1 "''a b''" "''EDM''" "''C''" Goalscorer "''CGY''" True None]
    quiet_stats
  by simp


section \<open>Properties of the confidence score\<close>







section \<open>Properties of the two-source validation\<close>

lemma validate_injured_with_props:
  assumes "Set_has espnInjured name" and "Set_has playersWithProps name"
  shows "finalVerdict (validatePlayerAvailability name espnInjured playersWithProps d) = UNCERTAIN"
    and "sourcesAgree (validatePlayerAvailability name espnInjured playersWithProps d) = 0"
proof -
  from assms(2) have "Set_size playersWithProps > 0"
    by (cases playersWithProps) (simp_all add: Set_has_def Set_size_def)
  with assms show
    "finalVerdict (validatePlayerAvailability name espnInjured playersWithProps d) = UNCERTAIN"
    "sourcesAgree (validatePlayerAvailability name espnInjured playersWithProps d) = 0"
    by (simp_all add: validatePlayerAvailability_def Let_def)
qed

lemma validate_injured_without_props:
  assumes "Set_has espnInjured name" and "\<not> Set_has playersWithProps name"
  shows "finalVerdict (validatePlayerAvailability name espnInjured playersWithProps d) = verdict_OUT"
    and "sourcesAgree (validatePlayerAvailability name espnInjured playersWithProps d)
          = (if Set_size playersWithProps > 0 then 2 else 1)"
    and "oddsStatus (validatePlayerAvailability name espnInjured playersWithProps d)
          = (if Set_size playersWithProps > 0 then no_props else odds_unknown)"
  using assms by (simp_all add: validatePlayerAvailability_def Let_def)

text \<open>
  Claim C3 states that a player whom the authoritative feed marks unavailable, while the
  market-presence set is empty, gets the verdict \<open>OUT\<close> with agreement count \<open>2\<close>. The
  verdict is \<open>OUT\<close>, but an empty set means that no props data exists: the odds status is
  \<open>unknown\<close> and the count is \<open>1\<close>.
\<close>

theorem validatePlayerAvailability_empty_props_counterexample:
  "finalVerdict (validatePlayerAvailability ''connor mcdavid'' [''connor mcdavid''] [] None) = verdict_OUT
   \<and> sourcesAgree (validatePlayerAvailability ''connor mcdavid'' [''connor mcdavid''] [] None) = 1
   \<and> sourcesAgree (validatePlayerAvailability ''connor mcdavid'' [''connor mcdavid''] [] None) \<noteq> 2"
  by (simp add: validatePlayerAvailability_def Let_def Set_has_def Set_size_def)


text \<open>
  Claim C3, amended: for every player marked unavailable by the authoritative feed while
  the market-presence set is empty, the verdict is \<open>OUT\<close> with agreement count \<open>1\<close> (the
  market signal is unknown); the count is \<open>2\<close> when the set is not empty and does not
  contain the player.
\<close>

theorem validatePlayerAvailability_injured_no_props:
  assumes "Set_has espnInjured name"
  shows "(Set_size playersWithProps = 0 \<longrightarrow>
            finalVerdict (validatePlayerAvailability name espnInjured playersWithProps d) = verdict_OUT
          \<and> oddsStatus (validatePlayerAvailability name espnInjured playersWithProps d) = odds_unknown
          \<and> sourcesAgree (validatePlayerAvailability name espnInjured playersWithProps d) = 1)
       \<and> (Set_size playersWithProps > 0 \<and> \<not> Set_has playersWithProps name \<longrightarrow>
            finalVerdict (validatePlayerAvailability name espnInjured playersWithProps d) = verdict_OUT
          \<and> oddsStatus (validatePlayerAvailability name espnInjured playersWithProps d) = no_props
          \<and> sourcesAgree (validatePlayerAvailability name espnInjured playersWithProps d) = 2)"
proof -
  have "Set_size playersWithProps = 0 \<Longrightarrow> \<not> Set_has playersWithProps name"
    by (simp add: Set_size_def Set_has_def)
  then show ?thesis
    using validate_injured_without_props [OF assms, of playersWithProps d] by auto
qed


theorem validatePlayerAvailability_injured_no_props_witness:
  "Set_has [''connor mcdavid''] ''connor mcdavid''
   \<and> sourcesAgree (validatePlayerAvailability ''connor mcdavid'' [''connor mcdavid''] [] None) = 1
   \<and> sourcesAgree (validatePlayerAvailability ''connor mcdavid'' [''connor mcdavid'']
         [''leon draisaitl''] None) = 2"
proof -
  have a: "Set_has [''connor mcdavid''] ''connor mcdavid''" by (simp add: Set_has_def)
  show ?thesis
    using a validatePlayerAvailability_injured_no_props [OF a, of "[]" None] validatePlayerAvailability_injured_no_props [OF a, of "[''leon draisaitl'']" None]
    by (simp add: Set_has_def Set_size_def)
qed


section \<open>Properties of the team impact\<close>

lemma LetI: "(\<And>x. x = a \<Longrightarrow> P (f x)) \<Longrightarrow> P (Let a f)"
  by simp

lemma Let_invariant: "Q a \<Longrightarrow> (\<And>x. Q x \<Longrightarrow> P (f x)) \<Longrightarrow> P (Let a f)"
  by simp

text \<open>NaN is absorbing for the arithmetic and for \<open>Math.min\<close> and \<open>Math.max\<close>, and it
  is in no interval.\<close>

lemma plus_NaN_right: "x + NaN = NaN"
  by (cases x) simp_all

lemma times_NaN_right: "x * NaN = NaN"
  by (cases x) simp_all

lemma times_NaN_left: "NaN * x = NaN"
  by simp

lemma Math_min_NaN: "Math_min a NaN = NaN"
  by (simp add: Math_min_def)

lemma Math_max_NaN: "Math_max a NaN = NaN"
  by (simp add: Math_max_def)

lemma NaN_not_le: "\<not> a \<le> NaN" "\<not> NaN \<le> a"
  by (cases a; simp)+

text \<open>A skater with infinitely many points on a team whose points total is infinite has
  the points share \<open>Infinity / Infinity\<close>: the test \<open>totalTeamPoints > 0\<close> holds, and all
  three impacts of the player are NaN.\<close>

lemma calculatePlayerImportance_NaN:
  assumes "ts_points teamStats = PosInf" and "rp_points p = PosInf"
  shows "winProbImpact (calculatePlayerImportance p teamStats players) = NaN
       \<and> ppImpact (calculatePlayerImportance p teamStats players) = NaN
       \<and> pkImpact (calculatePlayerImportance p teamStats players) = NaN"
  using assms
  by (simp add: calculatePlayerImportance_def Let_def js_or_else_def truthy_def lit_def fl_zero
      plus_NaN_right times_NaN_right Math_min_NaN)


lemma impactStep_NaN:
  assumes "position injury \<noteq> ''G''"
    and "find (\<lambda>p. nrm (rp_firstName p @ '' '' @ rp_lastName p) = nrm (playerName injury))
           (players @ goalies) = Some p"
    and "rp_points p = PosInf" and "ts_points teamStats = PosInf"
  shows "adjustmentsNaN (impact (impactStep nrm players goalies teamStats st injury))"
  using assms calculatePlayerImportance_NaN [of teamStats p players]
  unfolding impactStep_def Let_def adjustmentsNaN_def
  by (simp add: plus_NaN_right split: prod.split)

lemma calculateTeamImpact_NaN:
  assumes "ts_points teamStats = PosInf"
  shows "adjustmentsNaN
    (calculateTeamImpact nrm [mcdavidOverflowing] [] teamStats abbrev [mcdavidInjury])"
  unfolding calculateTeamImpact_def
  apply (rule LetI [where P = adjustmentsNaN])
  apply (rule LetI [where P = adjustmentsNaN])
  apply (rule LetI [where P = adjustmentsNaN])
  apply (split if_split, rule conjI)
   apply (simp add: mcdavidInjury_def)
  apply (rule impI)
  apply (rule LetI [where P = adjustmentsNaN])
  apply (rule Let_invariant [where P = adjustmentsNaN
        and Q = "\<lambda>st. adjustmentsNaN (impact st)"])
   apply (simp add: mcdavidInjury_def)
   apply (rule impactStep_NaN [where p = mcdavidOverflowing])
      apply (simp_all add: mcdavidOverflowing_def assms)[4]
  apply (rule Let_invariant [where P = adjustmentsNaN and Q = adjustmentsNaN])
   apply simp
  apply (rule Let_invariant [where P = adjustmentsNaN and Q = adjustmentsNaN])
   apply (simp add: adjustmentsNaN_def)
  apply (rule Let_invariant [where P = adjustmentsNaN and Q = adjustmentsNaN])
   apply (simp add: adjustmentsNaN_def)
  apply (rule Let_invariant [where P = adjustmentsNaN and Q = adjustmentsNaN])
   apply (simp add: adjustmentsNaN_def)
  apply (rule Let_invariant [where P = adjustmentsNaN and Q = "\<lambda>c. True"])
   apply simp
  apply (rule Let_invariant [where P = adjustmentsNaN and Q = adjustmentsNaN],
      simp add: adjustmentsNaN_def Math_min_NaN Math_max_NaN)+
  apply simp
  done

text \<open>
  Claim C5 states that for every input to \<open>calculateTeamImpact\<close> the returned adjustments
  lie within the documented symmetric bounds: the win-probability adjustment in
  \<open>[-0.3, 0.3]\<close>, the power-play adjustment in \<open>[-0.15, 0.15]\<close>, the penalty-kill
  adjustment in \<open>[-0.1, 0.1]\<close>, and both expected-goals adjustments in \<open>[-0.5, 0.5]\<close>.
  The code clamps each adjustment with \<open>Math.max(-b, Math.min(b, x))\<close>, which returns NaN
  for NaN. The following evaluation is the injured player whose club-stats entry gives
  \<open>points: 1e999\<close>: the three accumulated adjustments are NaN after the clamps, for any
  name normalization, and the result is outside the bounds.
\<close>

theorem calculateTeamImpact_clamp_passes_NaN:
  "(let (players, goalies, teamStats) = fetchTeamPlayerStats_ok [mcdavidOverflowing] [];
        r = calculateTeamImpact nrm players goalies teamStats ''EDM'' [mcdavidInjury]
    in totalWinProbAdjustment r = NaN \<and> powerPlayAdjustment r = NaN
       \<and> penaltyKillAdjustment r = NaN \<and> \<not> withinClampBounds r)"
proof -
  let ?teamStats = "snd (snd (fetchTeamPlayerStats_ok [mcdavidOverflowing] []))"
  have "ts_points ?teamStats = PosInf"
    by (simp add: fetchTeamPlayerStats_ok_def mcdavidOverflowing_def js_or_else_def truthy_def
        lit_def fl_zero)
  then have "adjustmentsNaN
    (calculateTeamImpact nrm [mcdavidOverflowing] [] ?teamStats ''EDM'' [mcdavidInjury])"
    by (rule calculateTeamImpact_NaN)
  then show ?thesis
    by (simp add: fetchTeamPlayerStats_ok_def adjustmentsNaN_def withinClampBounds_def
        NaN_not_le)
qed

text \<open>NaN is the only value that passes the clamps: for every input each of the five
  adjustments is NaN or within its bound (the infinities are clamped).\<close>

lemma lit_fraction:
  assumes "0 \<le> b" and "b < 1 - 1 / 2 ^ 54"
  shows "\<exists>r. lit b = Finite r \<and> 0 \<le> r"
proof -
  have r: "0 \<le> rnd b \<and> rnd b < 1" using assms by (rule rnd_below_one)
  then have "fl b = Finite (rnd b)" using MAX_VALUE_ge_one by (simp add: fl_def)
  then show ?thesis using r by (simp add: lit_def)
qed

lemma clamp_withinOrNaN:
  assumes "0 \<le> b" and "b < 1 - 1 / 2 ^ 54"
  shows "withinOrNaN b (Math_max (- lit b) (Math_min (lit b) x))"
proof -
  obtain r where r: "lit b = Finite r" "0 \<le> r" using lit_fraction [OF assms] by blast
  show ?thesis unfolding withinOrNaN_def r(1) using r(2)
    by (cases x) (auto simp add: Math_max_def Math_min_def)
qed

lemma zero_withinOrNaN:
  assumes "0 \<le> b" and "b < 1 - 1 / 2 ^ 54"
  shows "withinOrNaN b (lit 0)"
proof -
  obtain r where r: "lit b = Finite r" "0 \<le> r" using lit_fraction [OF assms] by blast
  show ?thesis unfolding withinOrNaN_def r(1) using r(2) by (simp add: lit_def fl_zero)
qed

lemma clamp_tail:
  "clampedUnlessNaN
    (let i = i6\<lparr>totalWinProbAdjustment :=
                   Math_max (- lit 0.3) (Math_min (lit 0.3) (totalWinProbAdjustment i6))\<rparr>;
         i = i\<lparr>powerPlayAdjustment :=
                 Math_max (- lit 0.15) (Math_min (lit 0.15) (powerPlayAdjustment i))\<rparr>;
         i = i\<lparr>penaltyKillAdjustment :=
                 Math_max (- lit 0.1) (Math_min (lit 0.1) (penaltyKillAdjustment i))\<rparr>;
         i = i\<lparr>expectedGoalsForAdjustment :=
                 Math_max (- lit 0.5) (Math_min (lit 0.5) (expectedGoalsForAdjustment i))\<rparr>;
         i = i\<lparr>expectedGoalsAgainstAdjustment :=
                 Math_max (- lit 0.5) (Math_min (lit 0.5) (expectedGoalsAgainstAdjustment i))\<rparr>
     in i)"
  by (simp add: Let_def clampedUnlessNaN_def clamp_withinOrNaN)

lemma calculateTeamImpact_clampedUnlessNaN:
  "clampedUnlessNaN (calculateTeamImpact nrm players goalies teamStats abbrev injs)"
  unfolding calculateTeamImpact_def
  apply (rule LetI [where P = clampedUnlessNaN])
  apply (rule LetI [where P = clampedUnlessNaN])
  apply (rule LetI [where P = clampedUnlessNaN])
  apply (split if_split)
  apply (rule conjI)
   apply (simp add: clampedUnlessNaN_def zero_withinOrNaN)
  apply (rule impI)
  apply (rule LetI [where P = clampedUnlessNaN])
  apply (rule LetI [where P = clampedUnlessNaN])
  apply (rule LetI [where P = clampedUnlessNaN])
  apply (rule LetI [where P = clampedUnlessNaN])
  apply (rule LetI [where P = clampedUnlessNaN])
  apply (rule LetI [where P = clampedUnlessNaN])
  apply (rule LetI [where P = clampedUnlessNaN])
  apply (rule LetI [where P = clampedUnlessNaN])
  apply (rule LetI [where P = clampedUnlessNaN])
  apply (rule LetI [where P = clampedUnlessNaN])
  apply (rule clamp_tail)
  done

text \<open>The list of injuries handed to \<open>calculateTeamImpact\<close> is returned unchanged in
  the field \<open>injuries\<close>.\<close>

lemma impactStep_injuries:
  "injuries (impact (impactStep nrm players goalies teamStats st injury)) = injuries (impact st)"
  unfolding impactStep_def Let_def
  by (simp split: option.split prod.split)

lemma impact_loop_injuries:
  "injuries (impact (foldl (impactStep nrm players goalies teamStats) st xs))
     = injuries (impact st)"
  by (induction xs arbitrary: st) (simp_all add: impactStep_injuries)

lemma calculateTeamImpact_injuries:
  "injuries (calculateTeamImpact nrm players goalies teamStats abbrev injs) = injs"
  unfolding calculateTeamImpact_def
  apply (rule LetI [where P = "\<lambda>r. injuries r = injs"])
  apply (rule LetI [where P = "\<lambda>r. injuries r = injs"])
  apply (rule LetI [where P = "\<lambda>r. injuries r = injs"])
  apply (split if_split, rule conjI)
   apply simp
  apply (rule impI)
  apply (rule Let_invariant [where P = "\<lambda>r. injuries r = injs" and Q = "\<lambda>r. injuries r = injs"])
   apply simp
  apply (rule Let_invariant [where P = "\<lambda>r. injuries r = injs"
        and Q = "\<lambda>st. injuries (impact st) = injs"])
   apply (simp add: impact_loop_injuries)
  apply (rule Let_invariant [where P = "\<lambda>r. injuries r = injs" and Q = "\<lambda>r. injuries r = injs"])
   apply simp
  apply (rule Let_invariant [where P = "\<lambda>r. injuries r = injs" and Q = "\<lambda>r. injuries r = injs"])
   apply simp
  apply (rule Let_invariant [where P = "\<lambda>r. injuries r = injs" and Q = "\<lambda>r. injuries r = injs"])
   apply simp
  apply (rule Let_invariant [where P = "\<lambda>r. injuries r = injs" and Q = "\<lambda>r. injuries r = injs"])
   apply simp
  apply (rule Let_invariant [where P = "\<lambda>r. injuries r = injs" and Q = "\<lambda>c. True"])
   apply simp
  apply (rule Let_invariant [where P = "\<lambda>r. injuries r = injs" and Q = "\<lambda>r. injuries r = injs"], simp)+
  apply simp
  done

section \<open>Properties of the refresh cycle\<close>

lemma validationStep_availability:
  "vl_playerAvailability (validationStep nrm I E P st x) =
     (vl_playerAvailability st)
       (x \<mapsto> validatePlayerAvailability x E P
                (find (\<lambda>i. nrm (playerName i) = x) (concat (map snd I))))"
  by (simp add: validationStep_def Let_def)

lemma validationStep_names:
  "set (vl_allInjuredNames (validationStep nrm I E P st x)) =
     set (vl_allInjuredNames st)
     \<union> (if finalVerdict (validatePlayerAvailability x E P
                (find (\<lambda>i. nrm (playerName i) = x) (concat (map snd I)))) = PLAYING
         then {} else {x})"
  by (auto simp add: validationStep_def Let_def Set_add_def)

lemma validation_loop_availability:
  assumes "x \<in> set xs"
  shows "vl_playerAvailability (foldl (validationStep nrm I E P) st xs) x =
     Some (validatePlayerAvailability x E P
             (find (\<lambda>i. nrm (playerName i) = x) (concat (map snd I))))"
  using assms
proof (induction xs rule: rev_induct)
  case Nil
  then show ?case by simp
next
  case (snoc y ys)
  then show ?case
    by (cases "x = y") (simp_all add: validationStep_availability)
qed

lemma validation_loop_names:
  "set (vl_allInjuredNames (foldl (validationStep nrm I E P) st xs)) =
     set (vl_allInjuredNames st)
     \<union> {x \<in> set xs. finalVerdict (validatePlayerAvailability x E P
                (find (\<lambda>i. nrm (playerName i) = x) (concat (map snd I)))) \<noteq> PLAYING}"
proof (induction xs rule: rev_induct)
  case Nil
  then show ?case by simp
next
  case (snoc y ys)
  then show ?case
    by (auto simp add: validationStep_names)
qed

lemma refreshInjuryCache_fields:
  "allInjuredNames (refreshInjuryCache nrm fetch I P) =
     vl_allInjuredNames
       (foldl (validationStep nrm I (buildEspnInjured nrm I) P)
          \<lparr>vl_playerAvailability = Map.empty, vl_allInjuredNames = [],
           vl_agreedOut = 0, vl_agreedPlaying = 0, vl_uncertain = 0\<rparr>
          (buildEspnInjured nrm I))"
  "playerAvailability (refreshInjuryCache nrm fetch I P) =
     vl_playerAvailability
       (foldl (validationStep nrm I (buildEspnInjured nrm I) P)
          \<lparr>vl_playerAvailability = Map.empty, vl_allInjuredNames = [],
           vl_agreedOut = 0, vl_agreedPlaying = 0, vl_uncertain = 0\<rparr>
          (buildEspnInjured nrm I))"
  "ic_espnInjured (refreshInjuryCache nrm fetch I P) = buildEspnInjured nrm I"
  unfolding refreshInjuryCache_def Let_def
  by (simp_all only: InjuryCache.simps)

lemma foldl_Set_add_set:
  "set (foldl (\<lambda>acc x. if A x then Set_add acc (f x) else acc) acc xs) =
     set acc \<union> {f x | x. x \<in> set xs \<and> A x}"
  by (induction xs rule: rev_induct) (auto simp add: Set_add_def)

lemma buildEspnInjured_set:
  "set (buildEspnInjured nrm I) =
     {nrm (playerName i) | i. i \<in> set (concat (map snd I))
        \<and> (status i = OUT \<or> status i = IR \<or> status i = LTIR
             \<or> status i = DAY_TO_DAY \<or> status i = SUSPENDED)}"
  unfolding buildEspnInjured_def foldl_Set_add_set by simp

lemma refreshInjuryCache_teamImpacts:
  "teamImpacts (refreshInjuryCache nrm fetch I P) =
     map (\<lambda>(t, teamInjuries).
            case fetch t of (players, goalies, teamStats) \<Rightarrow>
              (t, calculateTeamImpact nrm players goalies teamStats t
                    (filter (\<lambda>injury.
                       Set_has (allInjuredNames (refreshInjuryCache nrm fetch I P))
                         (nrm (playerName injury))) teamInjuries)))
       I"
  unfolding refreshInjuryCache_fields(1)
  unfolding refreshInjuryCache_def Let_def
  by (simp only: InjuryCache.simps)

lemma validated_injury_reaches_team_impact:
  assumes "(t, teamInjuries) \<in> set I" and "injury \<in> set teamInjuries"
    and "Set_has (allInjuredNames (refreshInjuryCache nrm fetch I P)) (nrm (playerName injury))"
  shows "\<exists>imp. (t, imp) \<in> set (teamImpacts (refreshInjuryCache nrm fetch I P))
            \<and> injury \<in> set (injuries imp)"
proof -
  obtain players goalies teamStats where f: "fetch t = (players, goalies, teamStats)"
    by (cases "fetch t") auto
  let ?imp = "calculateTeamImpact nrm players goalies teamStats t
                    (filter (\<lambda>injury.
                       Set_has (allInjuredNames (refreshInjuryCache nrm fetch I P))
                         (nrm (playerName injury))) teamInjuries)"
  have "(t, ?imp) \<in> set (teamImpacts (refreshInjuryCache nrm fetch I P))"
    unfolding refreshInjuryCache_teamImpacts using assms(1) f by force
  moreover have "injury \<in> set (injuries ?imp)"
    using assms(2,3) by (simp add: calculateTeamImpact_injuries)
  ultimately show ?thesis by blast
qed


text \<open>
  Claim C4: for every player marked unavailable by the authoritative feed (an ESPN injury
  record with an active status) who is present in the market-presence set,
  \<open>validatePlayerAvailability\<close> returns the verdict \<open>UNCERTAIN\<close>, and the refresh cycle
  treats the player as unavailable: it adds the player to the injured-name set, so that the
  injury record is among the injuries of the team's impact computation, while the stored
  availability record keeps the verdict \<open>UNCERTAIN\<close>.
\<close>

theorem refreshInjuryCache_uncertain_counts_as_injured:
  assumes "(t, teamInjuries) \<in> set I" and "injury \<in> set teamInjuries"
    and "status injury = OUT \<or> status injury = IR \<or> status injury = LTIR
         \<or> status injury = DAY_TO_DAY \<or> status injury = SUSPENDED"
    and "Set_has P (nrm (playerName injury))"
  shows "Set_has (ic_espnInjured (refreshInjuryCache nrm fetch I P)) (nrm (playerName injury))
       \<and> finalVerdict (validatePlayerAvailability (nrm (playerName injury))
            (ic_espnInjured (refreshInjuryCache nrm fetch I P)) P d) = UNCERTAIN
       \<and> Set_has (allInjuredNames (refreshInjuryCache nrm fetch I P)) (nrm (playerName injury))
       \<and> map_option finalVerdict
            (playerAvailability (refreshInjuryCache nrm fetch I P) (nrm (playerName injury)))
           = Some UNCERTAIN
       \<and> (\<exists>imp. (t, imp) \<in> set (teamImpacts (refreshInjuryCache nrm fetch I P))
               \<and> injury \<in> set (injuries imp))"
proof -
  let ?E = "buildEspnInjured nrm I"
  let ?name = "nrm (playerName injury)"
  have "injury \<in> set (concat (map snd I))"
    using assms(1,2) by force
  then have m: "?name \<in> set ?E"
    unfolding buildEspnInjured_set using assms(3) by blast
  then have e: "Set_has ?E ?name" by (simp add: Set_has_def)
  have v: "\<And>d. finalVerdict (validatePlayerAvailability ?name ?E P d) = UNCERTAIN"
    using e assms(4) by (rule validate_injured_with_props)
  have n: "?name \<in> set (allInjuredNames (refreshInjuryCache nrm fetch I P))"
    using m by (simp add: refreshInjuryCache_fields(1) validation_loop_names v)
  then have h: "Set_has (allInjuredNames (refreshInjuryCache nrm fetch I P)) ?name"
    by (simp add: Set_has_def)
  have a: "map_option finalVerdict
      (playerAvailability (refreshInjuryCache nrm fetch I P) ?name) = Some UNCERTAIN"
    using m by (simp add: refreshInjuryCache_fields(2) validation_loop_availability v)
  have i: "\<exists>imp. (t, imp) \<in> set (teamImpacts (refreshInjuryCache nrm fetch I P))
               \<and> injury \<in> set (injuries imp)"
    using assms(1,2) h by (rule validated_injury_reaches_team_impact)
  have "Set_has (ic_espnInjured (refreshInjuryCache nrm fetch I P)) ?name"
    using e by (simp add: refreshInjuryCache_fields(3))
  moreover have "finalVerdict (validatePlayerAvailability ?name
            (ic_espnInjured (refreshInjuryCache nrm fetch I P)) P d) = UNCERTAIN"
    using v by (simp add: refreshInjuryCache_fields(3))
  ultimately show ?thesis using h a i by (intro conjI)
qed

theorem refreshInjuryCache_uncertain_counts_as_injured_witness:
  "Set_has [''connor mcdavid''] (playerName mcdavidInjury)
   \<and> Set_has (allInjuredNames (refreshInjuryCache (\<lambda>s. s) noTeamStats
        [(''EDM'', [mcdavidInjury])] [''connor mcdavid''])) ''connor mcdavid''
   \<and> map_option finalVerdict (playerAvailability (refreshInjuryCache (\<lambda>s. s) noTeamStats
        [(''EDM'', [mcdavidInjury])] [''connor mcdavid'']) ''connor mcdavid'') = Some UNCERTAIN"
proof -
  have a: "(''EDM'', [mcdavidInjury]) \<in> set [(''EDM'', [mcdavidInjury])]"
    by simp
  have a': "mcdavidInjury \<in> set [mcdavidInjury]"
    by simp
  have b: "status mcdavidInjury = OUT \<or> status mcdavidInjury = IR
         \<or> status mcdavidInjury = LTIR \<or> status mcdavidInjury = DAY_TO_DAY
         \<or> status mcdavidInjury = SUSPENDED"
    by (simp add: mcdavidInjury_def)
  have n: "playerName mcdavidInjury = ''connor mcdavid''"
    by (simp add: mcdavidInjury_def)
  have c: "Set_has [''connor mcdavid''] ((\<lambda>s. s) (playerName mcdavidInjury))"
    by (simp add: Set_has_def n)
  show ?thesis
    using refreshInjuryCache_uncertain_counts_as_injured [where nrm = "\<lambda>s. s"
        and injury = mcdavidInjury and t = "''EDM''" and teamInjuries = "[mcdavidInjury]"
        and I = "[(''EDM'', [mcdavidInjury])]" and P = "[''connor mcdavid'']"
        and fetch = noTeamStats and d = None] a a' b c
    by (simp add: n)
qed

end
